theory Spec2Isabelle
  imports Main
begin

section \<open>Configuration model\<close>

text \<open>
  The generator \<^verbatim>\<open>tools/config_generator.py\<close> keeps one configuration per platform
  and renders it into a C header, a Makefile, a CMakeLists.txt and a JSON file.
  Python \<^verbatim>\<open>str\<close> values are modelled by their UTF-8 bytes (every file is written with
  \<^verbatim>\<open>encoding='utf-8'\<close>), Python \<^verbatim>\<open>int\<close> by \<^typ>\<open>int\<close>.
\<close>

datatype PlatformType = STM32F1 | STM32F4 | STM32F7 | RISC_V | X86_64

text \<open>The \<^verbatim>\<open>.value\<close> of each enumeration member.\<close>

fun PlatformType_value :: "PlatformType \<Rightarrow> string" where
  "PlatformType_value STM32F1 = ''stm32f1''"
| "PlatformType_value STM32F4 = ''stm32f4''"
| "PlatformType_value STM32F7 = ''stm32f7''"
| "PlatformType_value RISC_V = ''riscv''"
| "PlatformType_value X86_64 = ''x86_64''"

text \<open>Iterating over the enumeration (\<^verbatim>\<open>for platform in PlatformType\<close>) follows declaration order.\<close>

definition PlatformType_members :: "PlatformType list" where
  "PlatformType_members = [STM32F1, STM32F4, STM32F7, RISC_V, X86_64]"

record ClockConfig =
  system_clock_freq :: int
  cpu_clock_freq :: int
  apb1_clock_freq :: int
  apb2_clock_freq :: int
  timer_clock_freq :: int
  timer_resolution_ns :: int

record MemoryConfig =
  flash_size_kb :: int
  ram_size_kb :: int
  ccm_size_kb :: int
  heap_size_kb :: int
  stack_size_kb :: int

record PeripheralConfig =
  gpio_port_count :: int
  uart_count :: int
  spi_count :: int
  i2c_count :: int
  adc_count :: int
  dac_count :: int
  timer_count :: int
  dma_controller_count :: int
  dma_stream_count :: int

record FeatureConfig =
  has_fpu :: bool
  has_dsp :: bool
  has_mpu :: bool
  has_cache :: bool
  has_dma :: bool
  has_crypto :: bool
  has_ethernet :: bool
  has_usb :: bool

record ModuleConfig =
  power_management_enabled :: bool
  memory_monitor_enabled :: bool
  watchdog_enabled :: bool
  gpio_abstraction_enabled :: bool
  uart_abstraction_enabled :: bool
  spi_abstraction_enabled :: bool
  i2c_abstraction_enabled :: bool
  adc_abstraction_enabled :: bool
  dac_abstraction_enabled :: bool
  dma_abstraction_enabled :: bool
  security_enabled :: bool
  network_enabled :: bool
  ota_enabled :: bool
  debug_tools_enabled :: bool

record DebugConfig =
  debug_enabled :: bool
  error_check_enabled :: bool
  performance_profiling_enabled :: bool
  system_tracing_enabled :: bool
  memory_leak_detection_enabled :: bool

text \<open>
  A \<^verbatim>\<open>PlatformConfig\<close> whose attributes hold values of the declared types, as the
  constructor calls of \<^verbatim>\<open>_init_default_platforms\<close> build it.
\<close>

record PlatformConfig =
  platform_type :: PlatformType
  platform_name :: string
  clock :: ClockConfig
  memory :: MemoryConfig
  peripheral :: PeripheralConfig
  feature :: FeatureConfig
  module :: ModuleConfig
  debug :: DebugConfig

text \<open>
  The values that \<^verbatim>\<open>json.load\<close> returns and that \<^verbatim>\<open>json.dump\<close> is handed:
  \<^verbatim>\<open>None\<close>, booleans, integers, floats (carried as the text the encoder prints for
  them, never computed with), strings, lists, dictionaries with string keys (their items
  in insertion order, no key twice), and members of the enumeration, which
  \<^verbatim>\<open>asdict\<close> leaves in place.
\<close>

datatype pyval =
    PyNone
  | PyBool bool
  | PyInt int
  | PyFloat string
  | PyStr string
  | PyList "pyval list"
  | PyDict "(string \<times> pyval) list"
  | PyEnum PlatformType

text \<open>
  Dataclasses do not check the types of their fields. \<^verbatim>\<open>load_config_json\<close> builds its
  object by \<^verbatim>\<open>PlatformConfig(**config_dict)\<close>, so each of the eight attributes of such
  an object holds the parsed JSON value as it is.
\<close>

record LoadedAttrs =
  kw_platform_type :: pyval
  kw_platform_name :: pyval
  kw_clock :: pyval
  kw_memory :: pyval
  kw_peripheral :: pyval
  kw_feature :: pyval
  kw_module :: pyval
  kw_debug :: pyval

text \<open>
  The two kinds of \<^verbatim>\<open>PlatformConfig\<close> instance the program constructs: built field by
  field from typed values, or loaded from a JSON dictionary.
\<close>

datatype config_obj = Built PlatformConfig | Loaded LoadedAttrs

datatype error = NotFound | AttributeError | TypeError | JSONDecodeError | OSError

type_synonym registry = "PlatformType \<rightharpoonup> config_obj"

section \<open>Built-in presets\<close>

definition STM32F4_config :: PlatformConfig where
  "STM32F4_config = \<lparr>
     platform_type = STM32F4,
     platform_name = ''STM32F407VGT6'',
     clock = \<lparr>system_clock_freq = 168000000, cpu_clock_freq = 168000000,
       apb1_clock_freq = 84000000, apb2_clock_freq = 168000000,
       timer_clock_freq = 84000000, timer_resolution_ns = 11\<rparr>,
     memory = \<lparr>flash_size_kb = 1024, ram_size_kb = 128, ccm_size_kb = 64,
       heap_size_kb = 64, stack_size_kb = 16\<rparr>,
     peripheral = \<lparr>gpio_port_count = 9, uart_count = 6, spi_count = 3, i2c_count = 3,
       adc_count = 3, dac_count = 2, timer_count = 14, dma_controller_count = 2,
       dma_stream_count = 8\<rparr>,
     feature = \<lparr>has_fpu = True, has_dsp = True, has_mpu = True, has_cache = False,
       has_dma = True, has_crypto = False, has_ethernet = True, has_usb = True\<rparr>,
     module = \<lparr>power_management_enabled = True, memory_monitor_enabled = True,
       watchdog_enabled = True, gpio_abstraction_enabled = True,
       uart_abstraction_enabled = True, spi_abstraction_enabled = True,
       i2c_abstraction_enabled = True, adc_abstraction_enabled = True,
       dac_abstraction_enabled = True, dma_abstraction_enabled = True,
       security_enabled = False, network_enabled = True, ota_enabled = True,
       debug_tools_enabled = True\<rparr>,
     debug = \<lparr>debug_enabled = True, error_check_enabled = True,
       performance_profiling_enabled = True, system_tracing_enabled = True,
       memory_leak_detection_enabled = True\<rparr>\<rparr>"

definition STM32F1_config :: PlatformConfig where
  "STM32F1_config = \<lparr>
     platform_type = STM32F1,
     platform_name = ''STM32F103VET6'',
     clock = \<lparr>system_clock_freq = 72000000, cpu_clock_freq = 72000000,
       apb1_clock_freq = 36000000, apb2_clock_freq = 72000000,
       timer_clock_freq = 72000000, timer_resolution_ns = 13\<rparr>,
     memory = \<lparr>flash_size_kb = 512, ram_size_kb = 64, ccm_size_kb = 0,
       heap_size_kb = 32, stack_size_kb = 8\<rparr>,
     peripheral = \<lparr>gpio_port_count = 7, uart_count = 5, spi_count = 3, i2c_count = 2,
       adc_count = 2, dac_count = 0, timer_count = 8, dma_controller_count = 2,
       dma_stream_count = 7\<rparr>,
     feature = \<lparr>has_fpu = False, has_dsp = False, has_mpu = False, has_cache = False,
       has_dma = True, has_crypto = False, has_ethernet = False, has_usb = True\<rparr>,
     module = \<lparr>power_management_enabled = True, memory_monitor_enabled = True,
       watchdog_enabled = True, gpio_abstraction_enabled = True,
       uart_abstraction_enabled = True, spi_abstraction_enabled = True,
       i2c_abstraction_enabled = True, adc_abstraction_enabled = True,
       dac_abstraction_enabled = False, dma_abstraction_enabled = True,
       security_enabled = False, network_enabled = False, ota_enabled = False,
       debug_tools_enabled = True\<rparr>,
     debug = \<lparr>debug_enabled = True, error_check_enabled = True,
       performance_profiling_enabled = False, system_tracing_enabled = True,
       memory_leak_detection_enabled = True\<rparr>\<rparr>"

definition STM32F7_config :: PlatformConfig where
  "STM32F7_config = \<lparr>
     platform_type = STM32F7,
     platform_name = ''STM32F767VIT6'',
     clock = \<lparr>system_clock_freq = 216000000, cpu_clock_freq = 216000000,
       apb1_clock_freq = 54000000, apb2_clock_freq = 108000000,
       timer_clock_freq = 108000000, timer_resolution_ns = 9\<rparr>,
     memory = \<lparr>flash_size_kb = 2048, ram_size_kb = 512, ccm_size_kb = 0,
       heap_size_kb = 256, stack_size_kb = 32\<rparr>,
     peripheral = \<lparr>gpio_port_count = 11, uart_count = 8, spi_count = 6, i2c_count = 4,
       adc_count = 3, dac_count = 2, timer_count = 17, dma_controller_count = 2,
       dma_stream_count = 8\<rparr>,
     feature = \<lparr>has_fpu = True, has_dsp = True, has_mpu = True, has_cache = True,
       has_dma = True, has_crypto = True, has_ethernet = True, has_usb = True\<rparr>,
     module = \<lparr>power_management_enabled = True, memory_monitor_enabled = True,
       watchdog_enabled = True, gpio_abstraction_enabled = True,
       uart_abstraction_enabled = True, spi_abstraction_enabled = True,
       i2c_abstraction_enabled = True, adc_abstraction_enabled = True,
       dac_abstraction_enabled = True, dma_abstraction_enabled = True,
       security_enabled = True, network_enabled = True, ota_enabled = True,
       debug_tools_enabled = True\<rparr>,
     debug = \<lparr>debug_enabled = True, error_check_enabled = True,
       performance_profiling_enabled = True, system_tracing_enabled = True,
       memory_leak_detection_enabled = True\<rparr>\<rparr>"

text \<open>
  \<^verbatim>\<open>ConfigGenerator.__init__\<close>: \<^verbatim>\<open>self.platforms\<close> starts empty and
  \<^verbatim>\<open>_init_default_platforms\<close> assigns three keys.
\<close>

definition init_default_platforms :: registry where
  "init_default_platforms =
     (Map.empty(STM32F4 \<mapsto> Built STM32F4_config))
       (STM32F1 \<mapsto> Built STM32F1_config, STM32F7 \<mapsto> Built STM32F7_config)"

section \<open>Text helpers\<close>

definition digit_char :: "nat \<Rightarrow> char" where
  "digit_char d = ''0123456789'' ! d"

fun digits :: "nat \<Rightarrow> string" where
  "digits n = (if n < 10 then [digit_char n] else digits (n div 10) @ [digit_char (n mod 10)])"

declare digits.simps [simp del]

text \<open>\<^verbatim>\<open>str(i)\<close> for an integer, as f-strings and the JSON encoder print it.\<close>

definition str_int :: "int \<Rightarrow> string" where
  "str_int i = (if i < 0 then ''-'' @ digits (nat (- i)) else digits (nat i))"

text \<open>The f-string field \<^verbatim>\<open>{1 if flag else 0}\<close>.\<close>

definition one_or_zero :: "bool \<Rightarrow> string" where
  "one_or_zero b = (if b then ''1'' else ''0'')"

text \<open>\<^verbatim>\<open>str.upper\<close> on ASCII text (the enumeration values are ASCII).\<close>

definition upper_char :: "char \<Rightarrow> char" where
  "upper_char c =
     (case map_of (zip ''abcdefghijklmnopqrstuvwxyz'' ''ABCDEFGHIJKLMNOPQRSTUVWXYZ'') c of
        Some u \<Rightarrow> u
      | None \<Rightarrow> c)"

definition upper :: "string \<Rightarrow> string" where
  "upper s = map upper_char s"

text \<open>
  Every template of the source ends each of its lines with a newline, so a rendered text
  is kept as the list of its lines and joined when it is written.
\<close>

definition unlines :: "string list \<Rightarrow> string" where
  "unlines ls = concat (map (\<lambda>l. l @ [CHR 0x0A]) ls)"

section \<open>File system\<close>

text \<open>
  Files by path, and for each path whether \<^verbatim>\<open>os.makedirs\<close> of its directory and
  \<^verbatim>\<open>open(path, 'w')\<close> succeed there. A failure of either is caught by the
  \<^verbatim>\<open>except Exception\<close> of the caller before anything is written.
\<close>

record filesystem =
  files :: "string \<rightharpoonup> string"
  writable :: "string \<Rightarrow> bool"

definition write_text :: "filesystem \<Rightarrow> string \<Rightarrow> string \<Rightarrow> bool \<times> filesystem" where
  "write_text fs output_file content =
     (if writable fs output_file
      then (True, fs\<lparr>files := (files fs)(output_file \<mapsto> content)\<rparr>)
      else (False, fs))"

section \<open>Header renderer\<close>

text \<open>The f-string that opens \<^verbatim>\<open>generate_config_header\<close>.\<close>
definition header_body :: "PlatformConfig \<Rightarrow> PlatformType \<Rightarrow> string list" where
  \<open>header_body config platform =
    [''/**'',
     '' * @file hw_config_generated.h'',
     '' * @brief RTOS'' @ [CHR 0xE7, CHR 0xA1, CHR 0xAC, CHR 0xE4, CHR 0xBB, CHR 0xB6, CHR 0xE9, CHR 0x85, CHR 0x8D, CHR 0xE7, CHR 0xBD, CHR 0xAE] @ '' - '' @ [CHR 0xE8, CHR 0x87, CHR 0xAA, CHR 0xE5, CHR 0x8A, CHR 0xA8, CHR 0xE7, CHR 0x94, CHR 0x9F, CHR 0xE6, CHR 0x88, CHR 0x90] @ '' ('' @ platform_name config @ '')'',
     '' * @author Config Generator Tool'',
     '' * @date 2024'',
     '' */'',
     '''',
     ''#ifndef __RTOS_HW_CONFIG_GENERATED_H__'',
     ''#define __RTOS_HW_CONFIG_GENERATED_H__'',
     '''',
     ''/* '' @ [CHR 0xE5, CHR 0xB9, CHR 0xB3, CHR 0xE5, CHR 0x8F, CHR 0xB0, CHR 0xE6, CHR 0xA0, CHR 0x87, CHR 0xE8, CHR 0xAF, CHR 0x86] @ '' */'',
     ''#define RTOS_PLATFORM_NAME                "'' @ platform_name config @ ''"'',
     ''#define RTOS_PLATFORM_TYPE                '' @ upper (PlatformType_value platform),
     '''',
     ''/* '' @ [CHR 0xE6, CHR 0x97, CHR 0xB6, CHR 0xE9, CHR 0x92, CHR 0x9F, CHR 0xE9, CHR 0x85, CHR 0x8D, CHR 0xE7, CHR 0xBD, CHR 0xAE] @ '' */'',
     ''#define RTOS_HW_SYSTEM_CLOCK_FREQ          '' @ str_int (system_clock_freq (clock config)),
     ''#define RTOS_HW_CPU_CLOCK_FREQ             '' @ str_int (cpu_clock_freq (clock config)),
     ''#define RTOS_HW_APB1_CLOCK_FREQ            '' @ str_int (apb1_clock_freq (clock config)),
     ''#define RTOS_HW_APB2_CLOCK_FREQ            '' @ str_int (apb2_clock_freq (clock config)),
     ''#define RTOS_HW_TIMER_CLOCK_FREQ           '' @ str_int (timer_clock_freq (clock config)),
     ''#define RTOS_HW_TIMER_RESOLUTION_NS        '' @ str_int (timer_resolution_ns (clock config)),
     '''',
     ''/* '' @ [CHR 0xE5, CHR 0x86, CHR 0x85, CHR 0xE5, CHR 0xAD, CHR 0x98, CHR 0xE9, CHR 0x85, CHR 0x8D, CHR 0xE7, CHR 0xBD, CHR 0xAE] @ '' */'',
     ''#define RTOS_HW_FLASH_SIZE                 '' @ str_int (flash_size_kb (memory config)),
     ''#define RTOS_HW_SRAM_SIZE                  '' @ str_int (ram_size_kb (memory config)),
     ''#define RTOS_HW_CCM_SIZE                   '' @ str_int (ccm_size_kb (memory config)),
     ''#define RTOS_HW_HEAP_SIZE                  '' @ str_int (heap_size_kb (memory config)),
     ''#define RTOS_HW_STACK_SIZE                 '' @ str_int (stack_size_kb (memory config)),
     '''',
     ''/* '' @ [CHR 0xE5, CHR 0xA4, CHR 0x96, CHR 0xE8, CHR 0xAE, CHR 0xBE, CHR 0xE9, CHR 0x85, CHR 0x8D, CHR 0xE7, CHR 0xBD, CHR 0xAE] @ '' */'',
     ''#define RTOS_HW_GPIO_PORT_COUNT            '' @ str_int (gpio_port_count (peripheral config)),
     ''#define RTOS_HW_UART_COUNT                 '' @ str_int (uart_count (peripheral config)),
     ''#define RTOS_HW_SPI_COUNT                  '' @ str_int (spi_count (peripheral config)),
     ''#define RTOS_HW_I2C_COUNT                  '' @ str_int (i2c_count (peripheral config)),
     ''#define RTOS_HW_ADC_COUNT                  '' @ str_int (adc_count (peripheral config)),
     ''#define RTOS_HW_DAC_COUNT                  '' @ str_int (dac_count (peripheral config)),
     ''#define RTOS_HW_TIMER_COUNT                '' @ str_int (timer_count (peripheral config)),
     ''#define RTOS_HW_DMA_CONTROLLER_COUNT       '' @ str_int (dma_controller_count (peripheral config)),
     ''#define RTOS_HW_DMA_STREAM_COUNT           '' @ str_int (dma_stream_count (peripheral config)),
     '''',
     ''/* '' @ [CHR 0xE7, CHR 0xA1, CHR 0xAC, CHR 0xE4, CHR 0xBB, CHR 0xB6, CHR 0xE7, CHR 0x89, CHR 0xB9, CHR 0xE6, CHR 0x80, CHR 0xA7, CHR 0xE9, CHR 0x85, CHR 0x8D, CHR 0xE7, CHR 0xBD, CHR 0xAE] @ '' */'',
     ''#define RTOS_HW_SUPPORT_FPU                '' @ one_or_zero (has_fpu (feature config)),
     ''#define RTOS_HW_SUPPORT_DSP                '' @ one_or_zero (has_dsp (feature config)),
     ''#define RTOS_HW_SUPPORT_MPU                '' @ one_or_zero (has_mpu (feature config)),
     ''#define RTOS_HW_SUPPORT_CACHE              '' @ one_or_zero (has_cache (feature config)),
     ''#define RTOS_HW_SUPPORT_DMA                '' @ one_or_zero (has_dma (feature config)),
     ''#define RTOS_HW_SUPPORT_CRYPTO             '' @ one_or_zero (has_crypto (feature config)),
     ''#define RTOS_HW_SUPPORT_ETHERNET           '' @ one_or_zero (has_ethernet (feature config)),
     ''#define RTOS_HW_SUPPORT_USB                '' @ one_or_zero (has_usb (feature config)),
     '''',
     ''/* '' @ [CHR 0xE6, CHR 0xA8, CHR 0xA1, CHR 0xE5, CHR 0x9D, CHR 0x97, CHR 0xE4, CHR 0xBD, CHR 0xBF, CHR 0xE8, CHR 0x83, CHR 0xBD, CHR 0xE9, CHR 0x85, CHR 0x8D, CHR 0xE7, CHR 0xBD, CHR 0xAE] @ '' */'',
     ''#define RTOS_HW_ENABLE_POWER_MGMT          '' @ one_or_zero (power_management_enabled (module config)),
     ''#define RTOS_HW_ENABLE_MEMORY_MONITOR      '' @ one_or_zero (memory_monitor_enabled (module config)),
     ''#define RTOS_HW_ENABLE_WATCHDOG            '' @ one_or_zero (watchdog_enabled (module config)),
     ''#define RTOS_HW_ENABLE_GPIO                '' @ one_or_zero (gpio_abstraction_enabled (module config)),
     ''#define RTOS_HW_ENABLE_UART                '' @ one_or_zero (uart_abstraction_enabled (module config)),
     ''#define RTOS_HW_ENABLE_SPI                 '' @ one_or_zero (spi_abstraction_enabled (module config)),
     ''#define RTOS_HW_ENABLE_I2C                 '' @ one_or_zero (i2c_abstraction_enabled (module config)),
     ''#define RTOS_HW_ENABLE_ADC                 '' @ one_or_zero (adc_abstraction_enabled (module config)),
     ''#define RTOS_HW_ENABLE_DAC                 '' @ one_or_zero (dac_abstraction_enabled (module config)),
     ''#define RTOS_HW_ENABLE_DMA                 '' @ one_or_zero (dma_abstraction_enabled (module config)),
     ''#define RTOS_HW_ENABLE_SECURITY            '' @ one_or_zero (security_enabled (module config)),
     ''#define RTOS_HW_ENABLE_NETWORK             '' @ one_or_zero (network_enabled (module config)),
     ''#define RTOS_HW_ENABLE_OTA                 '' @ one_or_zero (ota_enabled (module config)),
     ''#define RTOS_HW_ENABLE_DEBUG_TOOLS         '' @ one_or_zero (debug_tools_enabled (module config)),
     '''',
     ''/* '' @ [CHR 0xE8, CHR 0xB0, CHR 0x83, CHR 0xE8, CHR 0xAF, CHR 0x95, CHR 0xE9, CHR 0x85, CHR 0x8D, CHR 0xE7, CHR 0xBD, CHR 0xAE] @ '' */'',
     ''#define RTOS_HW_DEBUG                      '' @ one_or_zero (debug_enabled (debug config)),
     ''#define RTOS_HW_ERROR_CHECK                '' @ one_or_zero (error_check_enabled (debug config)),
     ''#define RTOS_PERFORMANCE_PROFILING_ENABLED '' @ one_or_zero (performance_profiling_enabled (debug config)),
     ''#define RTOS_SYSTEM_TRACING_ENABLED        '' @ one_or_zero (system_tracing_enabled (debug config)),
     ''#define RTOS_MEMORY_LEAK_DETECTION         '' @ one_or_zero (memory_leak_detection_enabled (debug config)),
     '''',
     ''/* '' @ [CHR 0xE6, CHR 0xA8, CHR 0xA1, CHR 0xE5, CHR 0x9D, CHR 0x97, CHR 0xE7, CHR 0x89, CHR 0xB9, CHR 0xE5, CHR 0xAE, CHR 0x9A, CHR 0xE8, CHR 0xB0, CHR 0x83, CHR 0xE8, CHR 0xAF, CHR 0x95, CHR 0xE9, CHR 0x85, CHR 0x8D, CHR 0xE7, CHR 0xBD, CHR 0xAE] @ '' */'',
     ''#define RTOS_POWER_DEBUG                   RTOS_HW_DEBUG'',
     ''#define RTOS_POWER_ERROR_CHECK             RTOS_HW_ERROR_CHECK'',
     ''#define RTOS_MEMORY_DEBUG                  RTOS_HW_DEBUG'',
     ''#define RTOS_MEMORY_ERROR_CHECK            RTOS_HW_ERROR_CHECK'',
     ''#define RTOS_WATCHDOG_DEBUG                RTOS_HW_DEBUG'',
     ''#define RTOS_WATCHDOG_ERROR_CHECK          RTOS_HW_ERROR_CHECK'',
     ''#define RTOS_GPIO_DEBUG                    RTOS_HW_DEBUG'',
     ''#define RTOS_GPIO_ERROR_CHECK              RTOS_HW_ERROR_CHECK'',
     ''#define RTOS_UART_DEBUG                    RTOS_HW_DEBUG'',
     ''#define RTOS_UART_ERROR_CHECK              RTOS_HW_ERROR_CHECK'',
     ''#define RTOS_SPI_DEBUG                     RTOS_HW_DEBUG'',
     ''#define RTOS_SPI_ERROR_CHECK               RTOS_HW_ERROR_CHECK'',
     ''#define RTOS_I2C_DEBUG                     RTOS_HW_DEBUG'',
     ''#define RTOS_I2C_ERROR_CHECK               RTOS_HW_ERROR_CHECK'',
     ''#define RTOS_ADC_DEBUG                     RTOS_HW_DEBUG'',
     ''#define RTOS_ADC_ERROR_CHECK               RTOS_HW_ERROR_CHECK'',
     ''#define RTOS_DAC_DEBUG                     RTOS_HW_DEBUG'',
     ''#define RTOS_DAC_ERROR_CHECK               RTOS_HW_ERROR_CHECK'',
     ''#define RTOS_DMA_DEBUG                     RTOS_HW_DEBUG'',
     ''#define RTOS_DMA_ERROR_CHECK               RTOS_HW_ERROR_CHECK'',
     '''',
     ''/* '' @ [CHR 0xE5, CHR 0xB9, CHR 0xB3, CHR 0xE5, CHR 0x8F, CHR 0xB0, CHR 0xE7, CHR 0x89, CHR 0xB9, CHR 0xE5, CHR 0xAE, CHR 0x9A, CHR 0xE5, CHR 0xAE, CHR 0x8F, CHR 0xE5, CHR 0xAE, CHR 0x9A, CHR 0xE4, CHR 0xB9, CHR 0x89] @ '' */'']\<close>

text \<open>The \<^verbatim>\<open>if/elif\<close> chain on \<^verbatim>\<open>platform\<close> that appends the platform macros.\<close>
fun header_platform_macros :: "PlatformType \<Rightarrow> string list" where
  "header_platform_macros STM32F4 =
    ['''',
     ''#define STM32F40_41xxx                     1'',
     ''#define USE_STDPERIPH_DRIVER               1'',
     ''#define HSE_VALUE                          25000000'']"
| "header_platform_macros STM32F1 =
    ['''',
     ''#define STM32F10X_HD                       1'',
     ''#define USE_STDPERIPH_DRIVER               1'',
     ''#define HSE_VALUE                          8000000'']"
| "header_platform_macros STM32F7 =
    ['''',
     ''#define STM32F767xx                        1'',
     ''#define USE_HAL_DRIVER                     1'',
     ''#define HSE_VALUE                          25000000'']"
| "header_platform_macros RISC_V = []"
| "header_platform_macros X86_64 = []"

definition header_footer :: "string list" where
  "header_footer =
    ['''',
     ''#endif /* __RTOS_HW_CONFIG_GENERATED_H__ */'']"

definition header_lines :: "PlatformConfig \<Rightarrow> PlatformType \<Rightarrow> string list" where
  "header_lines config platform =
     header_body config platform @ header_platform_macros platform @ header_footer"

text \<open>
  The text \<^verbatim>\<open>generate_config_header\<close> builds before it touches the file system:
  \<^const>\<open>NotFound\<close> stands for the early \<^verbatim>\<open>return False\<close> on a platform that is not a
  key of \<^verbatim>\<open>self.platforms\<close>; on a loaded object \<^verbatim>\<open>config.clock\<close> is a parsed JSON
  value, which has no attribute \<^verbatim>\<open>system_clock_freq\<close>, and the f-string raises.
\<close>

definition config_header_text :: "registry \<Rightarrow> PlatformType \<Rightarrow> error + string list" where
  "config_header_text platforms platform =
     (case platforms platform of
        None \<Rightarrow> Inl NotFound
      | Some (Loaded kw) \<Rightarrow> Inl AttributeError
      | Some (Built config) \<Rightarrow> Inr (header_lines config platform))"

text \<open>
  A generator returns its boolean and the file system it leaves, or lets an exception
  escape (the text is built outside the \<^verbatim>\<open>try\<close>).
\<close>

definition generate_config_header ::
  "registry \<Rightarrow> PlatformType \<Rightarrow> string \<Rightarrow> filesystem \<Rightarrow> error + bool \<times> filesystem" where
  "generate_config_header platforms platform output_file fs =
     (case config_header_text platforms platform of
        Inl NotFound \<Rightarrow> Inr (False, fs)
      | Inl e \<Rightarrow> Inl e
      | Inr ls \<Rightarrow> Inr (write_text fs output_file (unlines ls)))"

section \<open>Makefile renderer\<close>

text \<open>The f-string that opens \<^verbatim>\<open>generate_makefile\<close>.\<close>
definition makefile_head :: "PlatformConfig \<Rightarrow> PlatformType \<Rightarrow> string list" where
  \<open>makefile_head config platform =
    [''# RTOS'' @ [CHR 0xE7, CHR 0xA1, CHR 0xAC, CHR 0xE4, CHR 0xBB, CHR 0xB6, CHR 0xE6, CHR 0x8A, CHR 0xBD, CHR 0xE8, CHR 0xB1, CHR 0xA1, CHR 0xE5, CHR 0xB1, CHR 0x82] @ ''Makefile - '' @ [CHR 0xE8, CHR 0x87, CHR 0xAA, CHR 0xE5, CHR 0x8A, CHR 0xA8, CHR 0xE7, CHR 0x94, CHR 0x9F, CHR 0xE6, CHR 0x88, CHR 0x90] @ '' ('' @ platform_name config @ '')'',
     ''# Generated by Config Generator Tool'',
     '''',
     ''# '' @ [CHR 0xE5, CHR 0xB9, CHR 0xB3, CHR 0xE5, CHR 0x8F, CHR 0xB0, CHR 0xE9, CHR 0x85, CHR 0x8D, CHR 0xE7, CHR 0xBD, CHR 0xAE],
     ''PLATFORM = '' @ PlatformType_value platform,
     ''PLATFORM_NAME = '' @ platform_name config,
     '''',
     ''# '' @ [CHR 0xE7, CHR 0xBC, CHR 0x96, CHR 0xE8, CHR 0xAF, CHR 0x91, CHR 0xE5, CHR 0x99, CHR 0xA8, CHR 0xE9, CHR 0x85, CHR 0x8D, CHR 0xE7, CHR 0xBD, CHR 0xAE]]\<close>

text \<open>
  The compiler block: the three STM32 members take the first branch, \<^verbatim>\<open>RISC_V\<close> the
  second, and \<^verbatim>\<open>X86_64\<close> neither.
\<close>
definition makefile_arm_toolchain :: "string list" where
  "makefile_arm_toolchain =
    [''CC = arm-none-eabi-gcc'',
     ''OBJCOPY = arm-none-eabi-objcopy'',
     ''SIZE = arm-none-eabi-size'',
     '''',
     ''# CPU'' @ [CHR 0xE9, CHR 0x85, CHR 0x8D, CHR 0xE7, CHR 0xBD, CHR 0xAE],
     ''CPU = -mcpu=cortex-m4 -mthumb -mfpu=fpv4-sp-d16 -mfloat-abi=hard'']"

definition makefile_riscv_toolchain :: "string list" where
  "makefile_riscv_toolchain =
    [''CC = riscv64-unknown-elf-gcc'',
     ''OBJCOPY = riscv64-unknown-elf-objcopy'',
     ''SIZE = riscv64-unknown-elf-size'',
     '''',
     ''# CPU'' @ [CHR 0xE9, CHR 0x85, CHR 0x8D, CHR 0xE7, CHR 0xBD, CHR 0xAE],
     ''CPU = -march=rv32imac -mabi=ilp32'']"

definition makefile_toolchain :: "PlatformType \<Rightarrow> string list" where
  "makefile_toolchain platform =
     (if platform \<in> set [STM32F1, STM32F4, STM32F7] then makefile_arm_toolchain
      else if platform = RISC_V then makefile_riscv_toolchain
      else [])"

text \<open>The second f-string: compile flags, include paths and the base source list.\<close>
definition makefile_flags :: "string list" where
  "makefile_flags =
    ['''',
     ''# '' @ [CHR 0xE7, CHR 0xBC, CHR 0x96, CHR 0xE8, CHR 0xAF, CHR 0x91, CHR 0xE6, CHR 0xA0, CHR 0x87, CHR 0xE5, CHR 0xBF, CHR 0x97],
     ''CFLAGS = $(CPU) -Os -g3 -Wall -Wextra -Wno-unused-parameter'',
     ''CFLAGS += -DSTM32F40_41xxx -DUSE_STDPERIPH_DRIVER -DHSE_VALUE=25000000'',
     '''',
     ''# '' @ [CHR 0xE5, CHR 0x8C, CHR 0x85, CHR 0xE5, CHR 0x90, CHR 0xAB, CHR 0xE8, CHR 0xB7, CHR 0xAF, CHR 0xE5, CHR 0xBE, CHR 0x84],
     ''INCLUDES = -I. -Irtos -Irtos/core -Irtos/hw -Irtos/hw/security -Irtos/hw/network -Irtos/hw/ota -Irtos/hw/debug'',
     ''INCLUDES += -Ifwlib/inc -Ifwlib/CMSIS/STM32F4xx/Include -Ifwlib/CMSIS/Include'',
     '''',
     ''# '' @ [CHR 0xE6, CHR 0xBA, CHR 0x90, CHR 0xE6, CHR 0x96, CHR 0x87, CHR 0xE4, CHR 0xBB, CHR 0xB6],
     ''SOURCES = main_hw_enhanced.c system_support.c'',
     ''SOURCES += rtos/system.c'',
     ''SOURCES += rtos/hw/hw_abstraction.c rtos/hw/interrupt_handler.c'',
     '''',
     ''# '' @ [CHR 0xE6, CHR 0x96, CHR 0xB0, CHR 0xE5, CHR 0xA2, CHR 0x9E, CHR 0xE6, CHR 0xA8, CHR 0xA1, CHR 0xE5, CHR 0x9D, CHR 0x97, CHR 0xE6, CHR 0xBA, CHR 0x90, CHR 0xE6, CHR 0x96, CHR 0x87, CHR 0xE4, CHR 0xBB, CHR 0xB6]]"

text \<open>The chain of \<^verbatim>\<open>if config.module.<flag>:\<close> statements, each appending one line.\<close>
definition makefile_module_sources :: "ModuleConfig \<Rightarrow> string list" where
  "makefile_module_sources m =
     (if power_management_enabled m then [''SOURCES += rtos/hw/power_management.c''] else []) @
     (if memory_monitor_enabled m then [''SOURCES += rtos/hw/memory_monitor.c''] else []) @
     (if watchdog_enabled m then [''SOURCES += rtos/hw/watchdog_manager.c''] else []) @
     (if gpio_abstraction_enabled m then [''SOURCES += rtos/hw/gpio_abstraction.c''] else []) @
     (if uart_abstraction_enabled m then [''SOURCES += rtos/hw/uart_abstraction.c''] else []) @
     (if spi_abstraction_enabled m then [''SOURCES += rtos/hw/spi_abstraction.c''] else []) @
     (if i2c_abstraction_enabled m then [''SOURCES += rtos/hw/i2c_abstraction.c''] else []) @
     (if dma_abstraction_enabled m then [''SOURCES += rtos/hw/dma_abstraction.c''] else [])"

text \<open>The closing literal: firmware library sources, objects, link script and targets.\<close>
definition makefile_tail :: "string list" where
  \<open>makefile_tail =
    ['''',
     ''# '' @ [CHR 0xE5, CHR 0x9B, CHR 0xBA, CHR 0xE4, CHR 0xBB, CHR 0xB6, CHR 0xE5, CHR 0xBA, CHR 0x93, CHR 0xE6, CHR 0xBA, CHR 0x90, CHR 0xE6, CHR 0x96, CHR 0x87, CHR 0xE4, CHR 0xBB, CHR 0xB6],
     ''FWLIB_SOURCES = fwlib/src/stm32f4xx_rcc.c fwlib/src/stm32f4xx_tim.c'',
     ''FWLIB_SOURCES += fwlib/src/stm32f4xx_gpio.c fwlib/src/stm32f4xx_usart.c'',
     ''FWLIB_SOURCES += fwlib/src/stm32f4xx_pwr.c fwlib/src/stm32f4xx_adc.c'',
     ''FWLIB_SOURCES += fwlib/src/stm32f4xx_iwdg.c fwlib/src/stm32f4xx_wwdg.c'',
     ''FWLIB_SOURCES += fwlib/src/stm32f4xx_dma.c fwlib/src/stm32f4xx_spi.c'',
     ''FWLIB_SOURCES += fwlib/src/stm32f4xx_i2c.c fwlib/src/stm32f4xx_dac.c'',
     ''FWLIB_SOURCES += fwlib/src/misc.c'',
     '''',
     ''# '' @ [CHR 0xE7, CHR 0x9B, CHR 0xAE, CHR 0xE6, CHR 0xA0, CHR 0x87, CHR 0xE6, CHR 0x96, CHR 0x87, CHR 0xE4, CHR 0xBB, CHR 0xB6],
     ''OBJECTS = $(SOURCES:.c=.o) $(FWLIB_SOURCES:.c=.o) startup_stm32f407xx.o'',
     '''',
     ''# '' @ [CHR 0xE9, CHR 0x93, CHR 0xBE, CHR 0xE6, CHR 0x8E, CHR 0xA5, CHR 0xE8, CHR 0x84, CHR 0x9A, CHR 0xE6, CHR 0x9C, CHR 0xAC],
     ''LDSCRIPT = STM32F407VGTx_FLASH.ld'',
     '''',
     ''# '' @ [CHR 0xE9, CHR 0x93, CHR 0xBE, CHR 0xE6, CHR 0x8E, CHR 0xA5, CHR 0xE6, CHR 0xA0, CHR 0x87, CHR 0xE5, CHR 0xBF, CHR 0x97],
     ''LDFLAGS = $(CPU) -specs=nano.specs -specs=nosys.specs'',
     ''LDFLAGS += -T$(LDSCRIPT) -Wl,--gc-sections -Wl,--print-memory-usage'',
     '''',
     ''# '' @ [CHR 0xE7, CHR 0x9B, CHR 0xAE, CHR 0xE6, CHR 0xA0, CHR 0x87],
     ''TARGET = rtos_hw_enhanced'',
     '''',
     ''.PHONY: all clean'',
     '''',
     ''all: $(TARGET).elf $(TARGET).bin $(TARGET).hex'',
     '''',
     ''$(TARGET).elf: $(OBJECTS)'',
     [CHR 0x09] @ ''$(CC) $(LDFLAGS) $^ -o $@ -lm'',
     [CHR 0x09] @ ''$(SIZE) $@'',
     '''',
     ''$(TARGET).bin: $(TARGET).elf'',
     [CHR 0x09] @ ''$(OBJCOPY) -O binary $< $@'',
     '''',
     ''$(TARGET).hex: $(TARGET).elf'',
     [CHR 0x09] @ ''$(OBJCOPY) -O ihex $< $@'',
     '''',
     ''%.o: %.c'',
     [CHR 0x09] @ ''$(CC) $(CFLAGS) $(INCLUDES) -c $< -o $@'',
     '''',
     ''%.o: %.s'',
     [CHR 0x09] @ ''$(CC) $(CFLAGS) -c $< -o $@'',
     '''',
     ''clean:'',
     [CHR 0x09] @ ''@echo "'' @ [CHR 0xE6, CHR 0xB8, CHR 0x85, CHR 0xE7, CHR 0x90, CHR 0x86, CHR 0xE7, CHR 0xBC, CHR 0x96, CHR 0xE8, CHR 0xAF, CHR 0x91, CHR 0xE6, CHR 0x96, CHR 0x87, CHR 0xE4, CHR 0xBB, CHR 0xB6] @ ''..."'',
     [CHR 0x09] @ ''rm -f $(OBJECTS) $(TARGET).elf $(TARGET).bin $(TARGET).hex $(TARGET).map'',
     '''',
     ''info:'',
     [CHR 0x09] @ ''@echo "'' @ [CHR 0xE5, CHR 0xB9, CHR 0xB3, CHR 0xE5, CHR 0x8F, CHR 0xB0] @ '': $(PLATFORM_NAME)"'',
     [CHR 0x09] @ ''@echo "'' @ [CHR 0xE7, CHR 0xBC, CHR 0x96, CHR 0xE8, CHR 0xAF, CHR 0x91, CHR 0xE5, CHR 0x99, CHR 0xA8] @ '': $(CC)"'',
     [CHR 0x09] @ ''@echo "'' @ [CHR 0xE6, CHR 0xBA, CHR 0x90, CHR 0xE6, CHR 0x96, CHR 0x87, CHR 0xE4, CHR 0xBB, CHR 0xB6, CHR 0xE6, CHR 0x95, CHR 0xB0] @ '': $(words $(SOURCES))"'',
     [CHR 0x09] @ ''@echo "'' @ [CHR 0xE5, CHR 0x9B, CHR 0xBA, CHR 0xE4, CHR 0xBB, CHR 0xB6, CHR 0xE5, CHR 0xBA, CHR 0x93, CHR 0xE6, CHR 0x96, CHR 0x87, CHR 0xE4, CHR 0xBB, CHR 0xB6, CHR 0xE6, CHR 0x95, CHR 0xB0] @ '': $(words $(FWLIB_SOURCES))"'']\<close>

definition makefile_lines :: "PlatformConfig \<Rightarrow> PlatformType \<Rightarrow> string list" where
  "makefile_lines config platform =
     makefile_head config platform @ makefile_toolchain platform @ makefile_flags @
     makefile_module_sources (module config) @ makefile_tail"

text \<open>
  On a loaded object \<^verbatim>\<open>config.platform_name\<close> is read without error, but
  \<^verbatim>\<open>config.module\<close> is a parsed JSON value and \<^verbatim>\<open>config.module.power_management_enabled\<close>
  raises.
\<close>

definition makefile_text :: "registry \<Rightarrow> PlatformType \<Rightarrow> error + string list" where
  "makefile_text platforms platform =
     (case platforms platform of
        None \<Rightarrow> Inl NotFound
      | Some (Loaded kw) \<Rightarrow> Inl AttributeError
      | Some (Built config) \<Rightarrow> Inr (makefile_lines config platform))"

definition generate_makefile ::
  "registry \<Rightarrow> PlatformType \<Rightarrow> string \<Rightarrow> filesystem \<Rightarrow> error + bool \<times> filesystem" where
  "generate_makefile platforms platform output_file fs =
     (case makefile_text platforms platform of
        Inl NotFound \<Rightarrow> Inr (False, fs)
      | Inl e \<Rightarrow> Inl e
      | Inr ls \<Rightarrow> Inr (write_text fs output_file (unlines ls)))"

section \<open>CMake renderer\<close>

definition cmake_head :: "PlatformConfig \<Rightarrow> PlatformType \<Rightarrow> string list" where
  \<open>cmake_head config platform =
    [''# RTOS'' @ [CHR 0xE7, CHR 0xA1, CHR 0xAC, CHR 0xE4, CHR 0xBB, CHR 0xB6, CHR 0xE6, CHR 0x8A, CHR 0xBD, CHR 0xE8, CHR 0xB1, CHR 0xA1, CHR 0xE5, CHR 0xB1, CHR 0x82] @ ''CMake'' @ [CHR 0xE9, CHR 0x85, CHR 0x8D, CHR 0xE7, CHR 0xBD, CHR 0xAE] @ '' - '' @ [CHR 0xE8, CHR 0x87, CHR 0xAA, CHR 0xE5, CHR 0x8A, CHR 0xA8, CHR 0xE7, CHR 0x94, CHR 0x9F, CHR 0xE6, CHR 0x88, CHR 0x90] @ '' ('' @ platform_name config @ '')'',
     ''# Generated by Config Generator Tool'',
     '''',
     ''cmake_minimum_required(VERSION 3.16)'',
     '''',
     ''# '' @ [CHR 0xE9, CHR 0xA1, CHR 0xB9, CHR 0xE7, CHR 0x9B, CHR 0xAE, CHR 0xE9, CHR 0x85, CHR 0x8D, CHR 0xE7, CHR 0xBD, CHR 0xAE],
     ''project(rtos_hw_enhanced'',
     ''    VERSION 1.0.0'',
     ''    DESCRIPTION "RTOS Hardware Abstraction Layer Enhanced"'',
     ''    LANGUAGES C ASM'',
     '')'',
     '''',
     ''# '' @ [CHR 0xE5, CHR 0xB9, CHR 0xB3, CHR 0xE5, CHR 0x8F, CHR 0xB0, CHR 0xE9, CHR 0x85, CHR 0x8D, CHR 0xE7, CHR 0xBD, CHR 0xAE],
     ''set(PLATFORM_TYPE '' @ PlatformType_value platform @ '')'',
     ''set(PLATFORM_NAME '' @ platform_name config @ '')'',
     '''',
     ''# '' @ [CHR 0xE7, CHR 0xBC, CHR 0x96, CHR 0xE8, CHR 0xAF, CHR 0x91, CHR 0xE5, CHR 0x99, CHR 0xA8, CHR 0xE9, CHR 0x85, CHR 0x8D, CHR 0xE7, CHR 0xBD, CHR 0xAE]]\<close>

definition cmake_arm_toolchain :: "string list" where
  \<open>cmake_arm_toolchain =
    [''set(CMAKE_SYSTEM_NAME Generic)'',
     ''set(CMAKE_SYSTEM_PROCESSOR arm)'',
     '''',
     ''set(CMAKE_C_COMPILER arm-none-eabi-gcc)'',
     ''set(CMAKE_ASM_COMPILER arm-none-eabi-gcc)'',
     ''set(CMAKE_OBJCOPY arm-none-eabi-objcopy)'',
     ''set(CMAKE_SIZE arm-none-eabi-size)'',
     '''',
     ''# CPU'' @ [CHR 0xE9, CHR 0x85, CHR 0x8D, CHR 0xE7, CHR 0xBD, CHR 0xAE],
     ''set(CPU_FLAGS "-mcpu=cortex-m4 -mthumb -mfpu=fpv4-sp-d16 -mfloat-abi=hard")'']\<close>

text \<open>Only the STM32 branch exists here; every other member adds no compiler block.\<close>

definition cmake_toolchain :: "PlatformType \<Rightarrow> string list" where
  "cmake_toolchain platform =
     (if platform \<in> set [STM32F1, STM32F4, STM32F7] then cmake_arm_toolchain else [])"

definition cmake_flags :: "string list" where
  \<open>cmake_flags =
    ['''',
     ''# '' @ [CHR 0xE7, CHR 0xBC, CHR 0x96, CHR 0xE8, CHR 0xAF, CHR 0x91, CHR 0xE6, CHR 0xA0, CHR 0x87, CHR 0xE5, CHR 0xBF, CHR 0x97],
     ''set(CMAKE_C_FLAGS "${CPU_FLAGS} -Os -g3 -Wall -Wextra -Wno-unused-parameter")'',
     ''set(CMAKE_C_FLAGS "${CMAKE_C_FLAGS} -DSTM32F40_41xxx -DUSE_STDPERIPH_DRIVER -DHSE_VALUE=25000000")'',
     '''',
     ''# '' @ [CHR 0xE5, CHR 0x8C, CHR 0x85, CHR 0xE5, CHR 0x90, CHR 0xAB, CHR 0xE7, CHR 0x9B, CHR 0xAE, CHR 0xE5, CHR 0xBD, CHR 0x95],
     ''include_directories('',
     ''    .'',
     ''    rtos'',
     ''    rtos/core'',
     ''    rtos/hw'',
     ''    rtos/hw/security'',
     ''    rtos/hw/network'',
     ''    rtos/hw/ota'',
     ''    rtos/hw/debug'',
     ''    fwlib/inc'',
     ''    fwlib/CMSIS/STM32F4xx/Include'',
     ''    fwlib/CMSIS/Include'',
     '')'',
     '''',
     ''# '' @ [CHR 0xE6, CHR 0xBA, CHR 0x90, CHR 0xE6, CHR 0x96, CHR 0x87, CHR 0xE4, CHR 0xBB, CHR 0xB6],
     ''set(SOURCES'',
     ''    main_hw_enhanced.c'',
     ''    system_support.c'',
     ''    rtos/system.c'',
     ''    rtos/hw/hw_abstraction.c'',
     ''    rtos/hw/interrupt_handler.c'']\<close>

definition cmake_module_sources :: "ModuleConfig \<Rightarrow> string list" where
  "cmake_module_sources m =
     (if power_management_enabled m then [''    rtos/hw/power_management.c''] else []) @
     (if memory_monitor_enabled m then [''    rtos/hw/memory_monitor.c''] else []) @
     (if watchdog_enabled m then [''    rtos/hw/watchdog_manager.c''] else []) @
     (if gpio_abstraction_enabled m then [''    rtos/hw/gpio_abstraction.c''] else []) @
     (if uart_abstraction_enabled m then [''    rtos/hw/uart_abstraction.c''] else []) @
     (if dma_abstraction_enabled m then [''    rtos/hw/dma_abstraction.c''] else [])"

definition cmake_tail :: "string list" where
  \<open>cmake_tail =
    ['')'',
     '''',
     ''# '' @ [CHR 0xE5, CHR 0x9B, CHR 0xBA, CHR 0xE4, CHR 0xBB, CHR 0xB6, CHR 0xE5, CHR 0xBA, CHR 0x93, CHR 0xE6, CHR 0xBA, CHR 0x90, CHR 0xE6, CHR 0x96, CHR 0x87, CHR 0xE4, CHR 0xBB, CHR 0xB6],
     ''set(FWLIB_SOURCES'',
     ''    fwlib/src/stm32f4xx_rcc.c'',
     ''    fwlib/src/stm32f4xx_tim.c'',
     ''    fwlib/src/stm32f4xx_gpio.c'',
     ''    fwlib/src/stm32f4xx_usart.c'',
     ''    fwlib/src/stm32f4xx_pwr.c'',
     ''    fwlib/src/stm32f4xx_adc.c'',
     ''    fwlib/src/stm32f4xx_iwdg.c'',
     ''    fwlib/src/stm32f4xx_wwdg.c'',
     ''    fwlib/src/stm32f4xx_dma.c'',
     ''    fwlib/src/misc.c'',
     '')'',
     '''',
     ''# '' @ [CHR 0xE5, CHR 0x88, CHR 0x9B, CHR 0xE5, CHR 0xBB, CHR 0xBA, CHR 0xE5, CHR 0x8F, CHR 0xAF, CHR 0xE6, CHR 0x89, CHR 0xA7, CHR 0xE8, CHR 0xA1, CHR 0x8C, CHR 0xE6, CHR 0x96, CHR 0x87, CHR 0xE4, CHR 0xBB, CHR 0xB6],
     ''add_executable(${PROJECT_NAME}.elf'',
     ''    ${SOURCES}'',
     ''    ${FWLIB_SOURCES}'',
     ''    startup_stm32f407xx.s'',
     '')'',
     '''',
     ''# '' @ [CHR 0xE9, CHR 0x93, CHR 0xBE, CHR 0xE6, CHR 0x8E, CHR 0xA5, CHR 0xE9, CHR 0x85, CHR 0x8D, CHR 0xE7, CHR 0xBD, CHR 0xAE],
     ''set_target_properties(${PROJECT_NAME}.elf PROPERTIES'',
     ''    LINK_FLAGS "${CPU_FLAGS} -specs=nano.specs -specs=nosys.specs -T${CMAKE_SOURCE_DIR}/STM32F407VGTx_FLASH.ld -Wl,--gc-sections -Wl,--print-memory-usage"'',
     '')'',
     '''',
     ''target_link_libraries(${PROJECT_NAME}.elf m)'',
     '''',
     ''# '' @ [CHR 0xE7, CHR 0x94, CHR 0x9F, CHR 0xE6, CHR 0x88, CHR 0x90, CHR 0xE4, CHR 0xBA, CHR 0x8C, CHR 0xE8, CHR 0xBF, CHR 0x9B, CHR 0xE5, CHR 0x88, CHR 0xB6, CHR 0xE6, CHR 0x96, CHR 0x87, CHR 0xE4, CHR 0xBB, CHR 0xB6],
     ''add_custom_command(TARGET ${PROJECT_NAME}.elf POST_BUILD'',
     ''    COMMAND ${CMAKE_OBJCOPY} -O binary $<TARGET_FILE:${PROJECT_NAME}.elf> ${PROJECT_NAME}.bin'',
     ''    COMMAND ${CMAKE_OBJCOPY} -O ihex $<TARGET_FILE:${PROJECT_NAME}.elf> ${PROJECT_NAME}.hex'',
     ''    COMMAND ${CMAKE_SIZE} $<TARGET_FILE:${PROJECT_NAME}.elf>'',
     ''    COMMENT "'' @ [CHR 0xE7, CHR 0x94, CHR 0x9F, CHR 0xE6, CHR 0x88, CHR 0x90, CHR 0xE4, CHR 0xBA, CHR 0x8C, CHR 0xE8, CHR 0xBF, CHR 0x9B, CHR 0xE5, CHR 0x88, CHR 0xB6, CHR 0xE6, CHR 0x96, CHR 0x87, CHR 0xE4, CHR 0xBB, CHR 0xB6, CHR 0xE5, CHR 0x92, CHR 0x8C, CHR 0xE6, CHR 0x98, CHR 0xBE, CHR 0xE7, CHR 0xA4, CHR 0xBA, CHR 0xE5, CHR 0xA4, CHR 0xA7, CHR 0xE5, CHR 0xB0, CHR 0x8F, CHR 0xE4, CHR 0xBF, CHR 0xA1, CHR 0xE6, CHR 0x81, CHR 0xAF] @ ''"'',
     '')'']\<close>

definition cmake_lines :: "PlatformConfig \<Rightarrow> PlatformType \<Rightarrow> string list" where
  "cmake_lines config platform =
     cmake_head config platform @ cmake_toolchain platform @ cmake_flags @
     cmake_module_sources (module config) @ cmake_tail"

definition cmake_text :: "registry \<Rightarrow> PlatformType \<Rightarrow> error + string list" where
  "cmake_text platforms platform =
     (case platforms platform of
        None \<Rightarrow> Inl NotFound
      | Some (Loaded kw) \<Rightarrow> Inl AttributeError
      | Some (Built config) \<Rightarrow> Inr (cmake_lines config platform))"

definition generate_cmake_file ::
  "registry \<Rightarrow> PlatformType \<Rightarrow> string \<Rightarrow> filesystem \<Rightarrow> error + bool \<times> filesystem" where
  "generate_cmake_file platforms platform output_file fs =
     (case cmake_text platforms platform of
        Inl NotFound \<Rightarrow> Inr (False, fs)
      | Inl e \<Rightarrow> Inl e
      | Inr ls \<Rightarrow> Inr (write_text fs output_file (unlines ls)))"

section \<open>JSON codec\<close>

text \<open>
  \<^verbatim>\<open>dataclasses.asdict\<close>: a dataclass instance becomes a dictionary of its fields in
  declaration order, nested instances likewise; lists and dictionaries are copied; every
  other value, an enumeration member included, is kept as it is.
\<close>

definition asdict_clock :: "ClockConfig \<Rightarrow> pyval" where
  "asdict_clock c = PyDict
     [(''system_clock_freq'', PyInt (system_clock_freq c)),
      (''cpu_clock_freq'', PyInt (cpu_clock_freq c)),
      (''apb1_clock_freq'', PyInt (apb1_clock_freq c)),
      (''apb2_clock_freq'', PyInt (apb2_clock_freq c)),
      (''timer_clock_freq'', PyInt (timer_clock_freq c)),
      (''timer_resolution_ns'', PyInt (timer_resolution_ns c))]"

definition asdict_memory :: "MemoryConfig \<Rightarrow> pyval" where
  "asdict_memory c = PyDict
     [(''flash_size_kb'', PyInt (flash_size_kb c)),
      (''ram_size_kb'', PyInt (ram_size_kb c)),
      (''ccm_size_kb'', PyInt (ccm_size_kb c)),
      (''heap_size_kb'', PyInt (heap_size_kb c)),
      (''stack_size_kb'', PyInt (stack_size_kb c))]"

definition asdict_peripheral :: "PeripheralConfig \<Rightarrow> pyval" where
  "asdict_peripheral c = PyDict
     [(''gpio_port_count'', PyInt (gpio_port_count c)),
      (''uart_count'', PyInt (uart_count c)),
      (''spi_count'', PyInt (spi_count c)),
      (''i2c_count'', PyInt (i2c_count c)),
      (''adc_count'', PyInt (adc_count c)),
      (''dac_count'', PyInt (dac_count c)),
      (''timer_count'', PyInt (timer_count c)),
      (''dma_controller_count'', PyInt (dma_controller_count c)),
      (''dma_stream_count'', PyInt (dma_stream_count c))]"

definition asdict_feature :: "FeatureConfig \<Rightarrow> pyval" where
  "asdict_feature c = PyDict
     [(''has_fpu'', PyBool (has_fpu c)),
      (''has_dsp'', PyBool (has_dsp c)),
      (''has_mpu'', PyBool (has_mpu c)),
      (''has_cache'', PyBool (has_cache c)),
      (''has_dma'', PyBool (has_dma c)),
      (''has_crypto'', PyBool (has_crypto c)),
      (''has_ethernet'', PyBool (has_ethernet c)),
      (''has_usb'', PyBool (has_usb c))]"

definition asdict_module :: "ModuleConfig \<Rightarrow> pyval" where
  "asdict_module c = PyDict
     [(''power_management_enabled'', PyBool (power_management_enabled c)),
      (''memory_monitor_enabled'', PyBool (memory_monitor_enabled c)),
      (''watchdog_enabled'', PyBool (watchdog_enabled c)),
      (''gpio_abstraction_enabled'', PyBool (gpio_abstraction_enabled c)),
      (''uart_abstraction_enabled'', PyBool (uart_abstraction_enabled c)),
      (''spi_abstraction_enabled'', PyBool (spi_abstraction_enabled c)),
      (''i2c_abstraction_enabled'', PyBool (i2c_abstraction_enabled c)),
      (''adc_abstraction_enabled'', PyBool (adc_abstraction_enabled c)),
      (''dac_abstraction_enabled'', PyBool (dac_abstraction_enabled c)),
      (''dma_abstraction_enabled'', PyBool (dma_abstraction_enabled c)),
      (''security_enabled'', PyBool (security_enabled c)),
      (''network_enabled'', PyBool (network_enabled c)),
      (''ota_enabled'', PyBool (ota_enabled c)),
      (''debug_tools_enabled'', PyBool (debug_tools_enabled c))]"

definition asdict_debug :: "DebugConfig \<Rightarrow> pyval" where
  "asdict_debug c = PyDict
     [(''debug_enabled'', PyBool (debug_enabled c)),
      (''error_check_enabled'', PyBool (error_check_enabled c)),
      (''performance_profiling_enabled'', PyBool (performance_profiling_enabled c)),
      (''system_tracing_enabled'', PyBool (system_tracing_enabled c)),
      (''memory_leak_detection_enabled'', PyBool (memory_leak_detection_enabled c))]"

fun asdict :: "config_obj \<Rightarrow> pyval" where
  "asdict (Built config) = PyDict
     [(''platform_type'', PyEnum (platform_type config)),
      (''platform_name'', PyStr (platform_name config)),
      (''clock'', asdict_clock (clock config)),
      (''memory'', asdict_memory (memory config)),
      (''peripheral'', asdict_peripheral (peripheral config)),
      (''feature'', asdict_feature (feature config)),
      (''module'', asdict_module (module config)),
      (''debug'', asdict_debug (debug config))]"
| "asdict (Loaded kw) = PyDict
     [(''platform_type'', kw_platform_type kw),
      (''platform_name'', kw_platform_name kw),
      (''clock'', kw_clock kw),
      (''memory'', kw_memory kw),
      (''peripheral'', kw_peripheral kw),
      (''feature'', kw_feature kw),
      (''module'', kw_module kw),
      (''debug'', kw_debug kw)]"

text \<open>
  The string encoder used with \<^verbatim>\<open>ensure_ascii=False\<close>: the quote, the backslash and
  the control characters below 0x20 are escaped, every other byte is passed through.
\<close>

definition hex_char :: "nat \<Rightarrow> char" where
  "hex_char d = ''0123456789abcdef'' ! d"

definition escape_char :: "char \<Rightarrow> string" where
  "escape_char c =
     (if c = CHR 0x22 then [CHR 0x5C, CHR 0x22]
      else if c = CHR 0x5C then [CHR 0x5C, CHR 0x5C]
      else if c = CHR 0x0A then [CHR 0x5C, CHR ''n'']
      else if c = CHR 0x0D then [CHR 0x5C, CHR ''r'']
      else if c = CHR 0x09 then [CHR 0x5C, CHR ''t'']
      else if c = CHR 0x08 then [CHR 0x5C, CHR ''b'']
      else if c = CHR 0x0C then [CHR 0x5C, CHR ''f'']
      else if (of_char c :: nat) < 32
        then [CHR 0x5C, CHR ''u'', CHR ''0'', CHR ''0'',
              hex_char ((of_char c :: nat) div 16), hex_char ((of_char c :: nat) mod 16)]
      else [c])"

definition encode_basestring :: "string \<Rightarrow> string" where
  "encode_basestring s = [CHR 0x22] @ concat (map escape_char s) @ [CHR 0x22]"

text \<open>With \<^verbatim>\<open>indent=2\<close>: a newline followed by two spaces per nesting level.\<close>

definition newline_indent :: "nat \<Rightarrow> string" where
  "newline_indent level = [CHR 0x0A] @ replicate (2 * level) (CHR '' '')"

text \<open>
  \<^verbatim>\<open>json.dump\<close> writes the chunks of \<^verbatim>\<open>JSONEncoder.iterencode\<close> to the file one by
  one. The encoder raises \<^verbatim>\<open>TypeError\<close> when it reaches a value it cannot serialise
  (here: a member of the enumeration, which is neither a string nor a number); what was
  written before stays written. The result is the text written and the exception, if any.
  The first argument is the nesting level of the value being encoded.
\<close>

fun iterencode :: "nat \<Rightarrow> pyval \<Rightarrow> string \<times> error option"
  and iterencode_list :: "nat \<Rightarrow> pyval list \<Rightarrow> string \<times> error option"
  and iterencode_dict :: "nat \<Rightarrow> (string \<times> pyval) list \<Rightarrow> string \<times> error option"
where
  "iterencode level PyNone = (''null'', None)"
| "iterencode level (PyBool b) = (if b then ''true'' else ''false'', None)"
| "iterencode level (PyInt i) = (str_int i, None)"
| "iterencode level (PyFloat r) = (r, None)"
| "iterencode level (PyStr s) = (encode_basestring s, None)"
| "iterencode level (PyEnum e) = ('''', Some TypeError)"
| "iterencode level (PyList []) = (''[]'', None)"
| "iterencode level (PyList (v # vs)) =
     (case iterencode_list (Suc level) (v # vs) of
        (t, None) \<Rightarrow> (''['' @ newline_indent (Suc level) @ t @ newline_indent level @ '']'', None)
      | (t, Some e) \<Rightarrow> (''['' @ newline_indent (Suc level) @ t, Some e))"
| "iterencode level (PyDict []) = (''{}'', None)"
| "iterencode level (PyDict (kv # kvs)) =
     (case iterencode_dict (Suc level) (kv # kvs) of
        (t, None) \<Rightarrow> (''{'' @ newline_indent (Suc level) @ t @ newline_indent level @ ''}'', None)
      | (t, Some e) \<Rightarrow> (''{'' @ newline_indent (Suc level) @ t, Some e))"
| "iterencode_list level [] = ('''', None)"
| "iterencode_list level [v] = iterencode level v"
| "iterencode_list level (v # w # vs) =
     (case iterencode level v of
        (t, Some e) \<Rightarrow> (t, Some e)
      | (t, None) \<Rightarrow>
          (case iterencode_list level (w # vs) of
             (t', x) \<Rightarrow> (t @ '','' @ newline_indent level @ t', x)))"
| "iterencode_dict level [] = ('''', None)"
| "iterencode_dict level [(k, v)] =
     (case iterencode level v of (t, x) \<Rightarrow> (encode_basestring k @ '': '' @ t, x))"
| "iterencode_dict level ((k, v) # kv # kvs) =
     (case iterencode level v of
        (t, Some e) \<Rightarrow> (encode_basestring k @ '': '' @ t, Some e)
      | (t, None) \<Rightarrow>
          (case iterencode_dict level (kv # kvs) of
             (t', x) \<Rightarrow> (encode_basestring k @ '': '' @ t @ '','' @ newline_indent level @ t', x)))"

definition json_dump :: "pyval \<Rightarrow> string \<times> error option" where
  "json_dump obj = iterencode 0 obj"

text \<open>
  \<^verbatim>\<open>save_config_json\<close>: an unknown platform returns \<^verbatim>\<open>False\<close> at once. Otherwise the
  file is opened for writing (which truncates it) and \<^verbatim>\<open>json.dump\<close> writes into it;
  an exception of the encoder is caught, \<^verbatim>\<open>False\<close> is returned, and the file keeps what
  had been written. No exception escapes this function.
\<close>

definition save_config_json ::
  "registry \<Rightarrow> PlatformType \<Rightarrow> string \<Rightarrow> filesystem \<Rightarrow> bool \<times> filesystem" where
  "save_config_json platforms platform output_file fs =
     (case platforms platform of
        None \<Rightarrow> (False, fs)
      | Some config \<Rightarrow>
          if \<not> writable fs output_file then (False, fs)
          else (case json_dump (asdict config) of
                  (t, None) \<Rightarrow> (True, fs\<lparr>files := (files fs)(output_file \<mapsto> t)\<rparr>)
                | (t, Some e) \<Rightarrow> (False, fs\<lparr>files := (files fs)(output_file \<mapsto> t)\<rparr>)))"

text \<open>
  \<^verbatim>\<open>PlatformConfig(**config_dict)\<close>: a keyword that is not a field and a field without
  a keyword both raise \<^verbatim>\<open>TypeError\<close>; there are no default values. The values are
  stored as they come.
\<close>

definition field_names :: "string list" where
  "field_names = [''platform_type'', ''platform_name'', ''clock'', ''memory'', ''peripheral'',
     ''feature'', ''module'', ''debug'']"

definition PlatformConfig_kwargs :: "(string \<times> pyval) list \<Rightarrow> error + config_obj" where
  "PlatformConfig_kwargs kw =
     (if \<not> list_all (\<lambda>k. k \<in> set field_names) (map fst kw) then Inl TypeError
      else
        (case (map_of kw ''platform_type'', map_of kw ''platform_name'', map_of kw ''clock'',
               map_of kw ''memory'', map_of kw ''peripheral'', map_of kw ''feature'',
               map_of kw ''module'', map_of kw ''debug'') of
           (Some t, Some n, Some c, Some m, Some p, Some f, Some mo, Some d) \<Rightarrow>
             Inr (Loaded \<lparr>kw_platform_type = t, kw_platform_name = n, kw_clock = c,
               kw_memory = m, kw_peripheral = p, kw_feature = f, kw_module = mo,
               kw_debug = d\<rparr>)
         | _ \<Rightarrow> Inl TypeError))"

text \<open>
  \<^verbatim>\<open>load_config_json\<close>. Reading the file and \<^verbatim>\<open>json.load\<close> belong to the standard
  library; the argument is their outcome: the exception raised (file missing, bytes that
  are not UTF-8, text that is not JSON) or the parsed value. Every exception, also the
  \<^verbatim>\<open>TypeError\<close> of \<^verbatim>\<open>**\<close> applied to a value that is not a dictionary, ends in
  \<^verbatim>\<open>return None\<close>.
\<close>

fun load_config_json :: "error + pyval \<Rightarrow> config_obj option" where
  "load_config_json (Inl e) = None"
| "load_config_json (Inr (PyDict kw)) =
     (case PlatformConfig_kwargs kw of Inl e \<Rightarrow> None | Inr config \<Rightarrow> Some config)"
| "load_config_json (Inr v) = None"

section \<open>Overriding a registry entry\<close>

text \<open>
  \<^verbatim>\<open>main\<close>, lines 827 to 830: with \<^verbatim>\<open>--config-file\<close> the loaded object, when there is
  one, is stored under the platform named on the command line.
\<close>

definition override_platform :: "registry \<Rightarrow> PlatformType \<Rightarrow> config_obj option \<Rightarrow> registry" where
  "override_platform platforms platform custom_config =
     (case custom_config of
        None \<Rightarrow> platforms
      | Some config \<Rightarrow> platforms(platform \<mapsto> config))"

text \<open>
  \<^verbatim>\<open>config.platform_type == key\<close> in Python: on a loaded object the attribute is a
  parsed JSON value, which equals the key only if it is that enumeration member.
\<close>

fun identifier_is :: "config_obj \<Rightarrow> PlatformType \<Rightarrow> bool" where
  "identifier_is (Built config) key = (platform_type config = key)"
| "identifier_is (Loaded kw) key = (kw_platform_type kw = PyEnum key)"

definition entry_ok :: "registry \<Rightarrow> PlatformType \<Rightarrow> bool" where
  "entry_ok platforms key =
     (case platforms key of None \<Rightarrow> True | Some config \<Rightarrow> identifier_is config key)"

definition registry_ok :: "registry \<Rightarrow> bool" where
  "registry_ok platforms = list_all (entry_ok platforms) PlatformType_members"

section \<open>Vocabulary of the properties\<close>

text \<open>
  The specification describes the conditional source lists as rules, each appending its
  line when its flag is set, applied in a fixed order.
\<close>

definition apply_rules :: "((ModuleConfig \<Rightarrow> bool) \<times> string) list \<Rightarrow> ModuleConfig \<Rightarrow> string list" where
  "apply_rules rules m = map snd (filter (\<lambda>r. fst r m) rules)"

text \<open>
  The comparison \<^verbatim>\<open>==\<close> of the dataclass, field by field, between a built object and a
  loaded one. A loaded attribute is a parsed JSON value: it equals the identifier only if
  it is that enumeration member, the name only if it is that string, and never a nested
  dataclass instance (the generated \<^verbatim>\<open>__eq__\<close> answers only for its own class).
\<close>

definition fields_equal :: "PlatformConfig \<Rightarrow> LoadedAttrs \<Rightarrow> bool list" where
  "fields_equal config kw =
     [kw_platform_type kw = PyEnum (platform_type config),
      kw_platform_name kw = PyStr (platform_name config),
      False, False, False, False, False, False]"

text \<open>
  Two parsed documents used as inputs below. The first is the JSON object that lists the
  STM32F4 preset section by section, with the identifier written as the string
  \<^verbatim>\<open>"stm32f4"\<close>. The second has all eight top-level keys, but an empty clock section and
  values of other types in place of the remaining sections.
\<close>

definition stm32f4_document :: pyval where
  "stm32f4_document = PyDict
     [(''platform_type'', PyStr ''stm32f4''),
      (''platform_name'', PyStr ''STM32F407VGT6''),
      (''clock'', asdict_clock (clock STM32F4_config)),
      (''memory'', asdict_memory (memory STM32F4_config)),
      (''peripheral'', asdict_peripheral (peripheral STM32F4_config)),
      (''feature'', asdict_feature (feature STM32F4_config)),
      (''module'', asdict_module (module STM32F4_config)),
      (''debug'', asdict_debug (debug STM32F4_config))]"

definition hollow_document :: pyval where
  "hollow_document = PyDict
     [(''platform_type'', PyStr ''stm32f4''),
      (''platform_name'', PyStr ''custom''),
      (''clock'', PyDict []),
      (''memory'', PyInt 5),
      (''peripheral'', PyNone),
      (''feature'', PyList []),
      (''module'', PyStr ''all''),
      (''debug'', PyBool True)]"

text \<open>The first document without its memory section.\<close>

definition no_memory_document :: pyval where
  "no_memory_document = PyDict
     [(''platform_type'', PyStr ''stm32f4''),
      (''platform_name'', PyStr ''STM32F407VGT6''),
      (''clock'', asdict_clock (clock STM32F4_config)),
      (''peripheral'', asdict_peripheral (peripheral STM32F4_config)),
      (''feature'', asdict_feature (feature STM32F4_config)),
      (''module'', asdict_module (module STM32F4_config)),
      (''debug'', asdict_debug (debug STM32F4_config))]"

text \<open>
  A complete document for \<^verbatim>\<open>--platform riscv\<close>: the identifier \<^verbatim>\<open>"riscv"\<close>, a name, and
  the six sections with every field (the values are those of the STM32F1 preset).
\<close>

definition riscv_document :: pyval where
  "riscv_document = PyDict
     [(''platform_type'', PyStr ''riscv''),
      (''platform_name'', PyStr ''RV32IMAC''),
      (''clock'', asdict_clock (clock STM32F1_config)),
      (''memory'', asdict_memory (memory STM32F1_config)),
      (''peripheral'', asdict_peripheral (peripheral STM32F1_config)),
      (''feature'', asdict_feature (feature STM32F1_config)),
      (''module'', asdict_module (module STM32F1_config)),
      (''debug'', asdict_debug (debug STM32F1_config))]"

section \<open>Registry after initialisation\<close>

lemma init_default_platforms_dom:
  "dom init_default_platforms = {STM32F1, STM32F4, STM32F7}"
  by (auto simp: init_default_platforms_def split: if_splits)

lemma init_default_platforms_simps:
  "init_default_platforms STM32F1 = Some (Built STM32F1_config)"
  "init_default_platforms STM32F4 = Some (Built STM32F4_config)"
  "init_default_platforms STM32F7 = Some (Built STM32F7_config)"
  "init_default_platforms RISC_V = None"
  "init_default_platforms X86_64 = None"
  by (simp_all add: init_default_platforms_def)

lemma unknown_platform_returns_False:
  assumes "platforms platform = None"
  shows "generate_config_header platforms platform output_file fs = Inr (False, fs)"
    and "generate_makefile platforms platform output_file fs = Inr (False, fs)"
    and "generate_cmake_file platforms platform output_file fs = Inr (False, fs)"
    and "save_config_json platforms platform output_file fs = (False, fs)"
  using assms
  by (simp_all add: generate_config_header_def config_header_text_def generate_makefile_def
      makefile_text_def generate_cmake_file_def cmake_text_def save_config_json_def)

text \<open>
  C5. Initialisation registers presets for exactly three identifiers. The two other
  members of the enumeration, \<^const>\<open>RISC_V\<close> and \<^const>\<open>X86_64\<close>, have none: for every
  identifier without a preset the lookup finds nothing, each of the three renderers stops
  at its not-found branch, and all four generators return \<^verbatim>\<open>False\<close> and leave the file
  system as it was, whatever the output path.
\<close>

theorem no_preset_not_found:
  "dom init_default_platforms = {STM32F1, STM32F4, STM32F7}
   \<and> card (dom init_default_platforms) = 3
   \<and> RISC_V \<noteq> X86_64
   \<and> RISC_V \<notin> dom init_default_platforms
   \<and> X86_64 \<notin> dom init_default_platforms
   \<and> (platform \<notin> dom init_default_platforms \<longrightarrow>
        init_default_platforms platform = None
      \<and> config_header_text init_default_platforms platform = Inl NotFound
      \<and> makefile_text init_default_platforms platform = Inl NotFound
      \<and> cmake_text init_default_platforms platform = Inl NotFound
      \<and> generate_config_header init_default_platforms platform output_file fs = Inr (False, fs)
      \<and> generate_makefile init_default_platforms platform output_file fs = Inr (False, fs)
      \<and> generate_cmake_file init_default_platforms platform output_file fs = Inr (False, fs)
      \<and> save_config_json init_default_platforms platform output_file fs = (False, fs))"
proof -
  have fixed: "dom init_default_platforms = {STM32F1, STM32F4, STM32F7}
      \<and> card (dom init_default_platforms) = 3
      \<and> RISC_V \<noteq> X86_64
      \<and> RISC_V \<notin> dom init_default_platforms
      \<and> X86_64 \<notin> dom init_default_platforms"
    by (simp add: init_default_platforms_dom)
  have "init_default_platforms platform = None
      \<and> config_header_text init_default_platforms platform = Inl NotFound
      \<and> makefile_text init_default_platforms platform = Inl NotFound
      \<and> cmake_text init_default_platforms platform = Inl NotFound
      \<and> generate_config_header init_default_platforms platform output_file fs = Inr (False, fs)
      \<and> generate_makefile init_default_platforms platform output_file fs = Inr (False, fs)
      \<and> generate_cmake_file init_default_platforms platform output_file fs = Inr (False, fs)
      \<and> save_config_json init_default_platforms platform output_file fs = (False, fs)"
    if "platform \<notin> dom init_default_platforms"
  proof -
    from that have none: "init_default_platforms platform = None"
      by (simp add: domIff)
    then show ?thesis
      using unknown_platform_returns_False [of init_default_platforms platform]
      by (simp add: config_header_text_def makefile_text_def cmake_text_def)
  qed
  with fixed show ?thesis
    by blast
qed

theorem no_preset_not_found_witness:
  "RISC_V \<notin> dom init_default_platforms
   \<and> config_header_text init_default_platforms RISC_V = Inl NotFound
   \<and> generate_makefile init_default_platforms RISC_V ''generated/riscv/Makefile''
        \<lparr>files = Map.empty, writable = (\<lambda>p. True)\<rparr>
      = Inr (False, \<lparr>files = Map.empty, writable = (\<lambda>p. True)\<rparr>)
   \<and> save_config_json init_default_platforms X86_64 ''generated/x86_64/platform_config.json''
        \<lparr>files = Map.empty, writable = (\<lambda>p. True)\<rparr>
      = (False, \<lparr>files = Map.empty, writable = (\<lambda>p. True)\<rparr>)"
  using no_preset_not_found [of RISC_V "''generated/riscv/Makefile''"
      "\<lparr>files = Map.empty, writable = (\<lambda>p. True)\<rparr>"]
    no_preset_not_found [of X86_64 "''generated/x86_64/platform_config.json''"
      "\<lparr>files = Map.empty, writable = (\<lambda>p. True)\<rparr>"]
  by simp

section \<open>Header of the STM32F4 preset\<close>

lemma header_body_length: "length (header_body config platform) = 96"
  by (simp add: header_body_def)

lemma header_body_clock_line:
  "header_body STM32F4_config platform ! 15 =
     ''#define RTOS_HW_SYSTEM_CLOCK_FREQ          168000000''"
  by (simp add: header_body_def STM32F4_config_def str_int_def digits.simps digit_char_def)

lemma line_in_unlines:
  assumes "l \<in> set ls"
  shows "\<exists>before after. unlines ls = before @ l @ [CHR 0x0A] @ after"
proof -
  from assms obtain xs ys where "ls = xs @ l # ys"
    by (auto simp: in_set_conv_decomp)
  then have "unlines ls = unlines xs @ l @ [CHR 0x0A] @ unlines ys"
    by (simp add: unlines_def)
  then show ?thesis
    by blast
qed

text \<open>
  C9. The header rendered for the 168 MHz preset (\<^verbatim>\<open>stm32f4\<close>) is the common body, then
  the block of platform macros, then the closing of the include guard. Line 16 of the body
  is the system-clock constant with the value 168000000, and the platform block is the
  STM32F4 one, which starts (after a blank line) with the identity macro
  \<^verbatim>\<open>STM32F40_41xxx\<close>. On a writable path the generator stores exactly these lines,
  so the bytes of the file contain both lines, each followed by its newline.
\<close>

theorem stm32f4_header_clock_and_macro:
  "config_header_text init_default_platforms STM32F4 =
     Inr (header_body STM32F4_config STM32F4 @
          ['''',
           ''#define STM32F40_41xxx                     1'',
           ''#define USE_STDPERIPH_DRIVER               1'',
           ''#define HSE_VALUE                          25000000''] @
          header_footer)
   \<and> header_body STM32F4_config STM32F4 ! 15 =
       ''#define RTOS_HW_SYSTEM_CLOCK_FREQ          168000000''
   \<and> ''#define RTOS_HW_SYSTEM_CLOCK_FREQ          168000000''
       \<in> set (header_lines STM32F4_config STM32F4)
   \<and> ''#define STM32F40_41xxx                     1''
       \<in> set (header_platform_macros STM32F4)
   \<and> generate_config_header init_default_platforms STM32F4 output_file
        (fs\<lparr>writable := (\<lambda>p. True)\<rparr>) =
       Inr (True, fs\<lparr>writable := (\<lambda>p. True),
         files := (files fs)(output_file \<mapsto> unlines (header_lines STM32F4_config STM32F4))\<rparr>)
   \<and> (\<exists>before after. unlines (header_lines STM32F4_config STM32F4) =
         before @ ''#define RTOS_HW_SYSTEM_CLOCK_FREQ          168000000'' @ [CHR 0x0A] @ after)
   \<and> (\<exists>before after. unlines (header_lines STM32F4_config STM32F4) =
         before @ ''#define STM32F40_41xxx                     1'' @ [CHR 0x0A] @ after)"
proof -
  have text_eq: "config_header_text init_default_platforms STM32F4 =
      Inr (header_lines STM32F4_config STM32F4)"
    by (simp add: config_header_text_def init_default_platforms_simps)
  have "header_body STM32F4_config STM32F4 ! 15 \<in> set (header_body STM32F4_config STM32F4)"
    by (rule nth_mem) (simp add: header_body_length)
  then have mem: "''#define RTOS_HW_SYSTEM_CLOCK_FREQ          168000000''
      \<in> set (header_lines STM32F4_config STM32F4)"
    by (simp add: header_body_clock_line header_lines_def)
  have gen: "generate_config_header init_default_platforms STM32F4 output_file
        (fs\<lparr>writable := (\<lambda>p. True)\<rparr>) =
       Inr (True, fs\<lparr>writable := (\<lambda>p. True),
         files := (files fs)(output_file \<mapsto> unlines (header_lines STM32F4_config STM32F4))\<rparr>)"
    by (simp add: generate_config_header_def text_eq write_text_def)
  have macro: "''#define STM32F40_41xxx                     1''
      \<in> set (header_lines STM32F4_config STM32F4)"
    by (simp add: header_lines_def)
  have parts: "config_header_text init_default_platforms STM32F4 =
     Inr (header_body STM32F4_config STM32F4 @
          ['''',
           ''#define STM32F40_41xxx                     1'',
           ''#define USE_STDPERIPH_DRIVER               1'',
           ''#define HSE_VALUE                          25000000''] @
          header_footer)
   \<and> ''#define STM32F40_41xxx                     1''
       \<in> set (header_platform_macros STM32F4)"
    using text_eq by (simp add: header_lines_def)
  from parts header_body_clock_line [of STM32F4] mem gen
    line_in_unlines [OF mem] line_in_unlines [OF macro]
  show ?thesis
    by blast
qed

section \<open>Conditional source lists\<close>

lemma makefile_module_sources_mem:
  "''SOURCES += rtos/hw/power_management.c'' \<in> set (makefile_module_sources m) \<longleftrightarrow> power_management_enabled m"
  "''SOURCES += rtos/hw/memory_monitor.c'' \<in> set (makefile_module_sources m) \<longleftrightarrow> memory_monitor_enabled m"
  "''SOURCES += rtos/hw/watchdog_manager.c'' \<in> set (makefile_module_sources m) \<longleftrightarrow> watchdog_enabled m"
  "''SOURCES += rtos/hw/gpio_abstraction.c'' \<in> set (makefile_module_sources m) \<longleftrightarrow> gpio_abstraction_enabled m"
  "''SOURCES += rtos/hw/uart_abstraction.c'' \<in> set (makefile_module_sources m) \<longleftrightarrow> uart_abstraction_enabled m"
  "''SOURCES += rtos/hw/spi_abstraction.c'' \<in> set (makefile_module_sources m) \<longleftrightarrow> spi_abstraction_enabled m"
  "''SOURCES += rtos/hw/i2c_abstraction.c'' \<in> set (makefile_module_sources m) \<longleftrightarrow> i2c_abstraction_enabled m"
  "''SOURCES += rtos/hw/dma_abstraction.c'' \<in> set (makefile_module_sources m) \<longleftrightarrow> dma_abstraction_enabled m"
  by (simp_all add: makefile_module_sources_def)

lemma cmake_module_sources_mem:
  "''    rtos/hw/power_management.c'' \<in> set (cmake_module_sources m) \<longleftrightarrow> power_management_enabled m"
  "''    rtos/hw/memory_monitor.c'' \<in> set (cmake_module_sources m) \<longleftrightarrow> memory_monitor_enabled m"
  "''    rtos/hw/watchdog_manager.c'' \<in> set (cmake_module_sources m) \<longleftrightarrow> watchdog_enabled m"
  "''    rtos/hw/gpio_abstraction.c'' \<in> set (cmake_module_sources m) \<longleftrightarrow> gpio_abstraction_enabled m"
  "''    rtos/hw/uart_abstraction.c'' \<in> set (cmake_module_sources m) \<longleftrightarrow> uart_abstraction_enabled m"
  "''    rtos/hw/dma_abstraction.c'' \<in> set (cmake_module_sources m) \<longleftrightarrow> dma_abstraction_enabled m"
  by (simp_all add: cmake_module_sources_def)

lemma differ_by_member:
  assumes "x \<in> set xs \<longleftrightarrow> x \<notin> set ys"
  shows "xs \<noteq> ys"
  using assms by auto

text \<open>
  C7. The conditional part of the Makefile is the result of eight append-if-true rules
  applied in the order of the table below, one per flag. The list therefore depends on
  these eight flags only (changing the six other flags of the module section leaves it as
  it is), each of the eight flags does change it, and in the rendered Makefile the list
  stands between the block that ends with the fixed base sources and the closing block.
\<close>

theorem makefile_eight_rules:
  "makefile_module_sources m = apply_rules
     [(power_management_enabled, ''SOURCES += rtos/hw/power_management.c''),
      (memory_monitor_enabled, ''SOURCES += rtos/hw/memory_monitor.c''),
      (watchdog_enabled, ''SOURCES += rtos/hw/watchdog_manager.c''),
      (gpio_abstraction_enabled, ''SOURCES += rtos/hw/gpio_abstraction.c''),
      (uart_abstraction_enabled, ''SOURCES += rtos/hw/uart_abstraction.c''),
      (spi_abstraction_enabled, ''SOURCES += rtos/hw/spi_abstraction.c''),
      (i2c_abstraction_enabled, ''SOURCES += rtos/hw/i2c_abstraction.c''),
      (dma_abstraction_enabled, ''SOURCES += rtos/hw/dma_abstraction.c'')] m
   \<and> makefile_module_sources
        (m\<lparr>adc_abstraction_enabled := a, dac_abstraction_enabled := b, security_enabled := c,
           network_enabled := d, ota_enabled := e, debug_tools_enabled := f\<rparr>)
       = makefile_module_sources m
   \<and> makefile_module_sources (m\<lparr>power_management_enabled := \<not> power_management_enabled m\<rparr>)
       \<noteq> makefile_module_sources m
   \<and> makefile_module_sources (m\<lparr>memory_monitor_enabled := \<not> memory_monitor_enabled m\<rparr>)
       \<noteq> makefile_module_sources m
   \<and> makefile_module_sources (m\<lparr>watchdog_enabled := \<not> watchdog_enabled m\<rparr>)
       \<noteq> makefile_module_sources m
   \<and> makefile_module_sources (m\<lparr>gpio_abstraction_enabled := \<not> gpio_abstraction_enabled m\<rparr>)
       \<noteq> makefile_module_sources m
   \<and> makefile_module_sources (m\<lparr>uart_abstraction_enabled := \<not> uart_abstraction_enabled m\<rparr>)
       \<noteq> makefile_module_sources m
   \<and> makefile_module_sources (m\<lparr>spi_abstraction_enabled := \<not> spi_abstraction_enabled m\<rparr>)
       \<noteq> makefile_module_sources m
   \<and> makefile_module_sources (m\<lparr>i2c_abstraction_enabled := \<not> i2c_abstraction_enabled m\<rparr>)
       \<noteq> makefile_module_sources m
   \<and> makefile_module_sources (m\<lparr>dma_abstraction_enabled := \<not> dma_abstraction_enabled m\<rparr>)
       \<noteq> makefile_module_sources m
   \<and> makefile_lines config platform =
       (makefile_head config platform @ makefile_toolchain platform @ makefile_flags) @
       makefile_module_sources (module config) @ makefile_tail
   \<and> take 3 (drop 10 makefile_flags) =
       [''SOURCES = main_hw_enhanced.c system_support.c'',
        ''SOURCES += rtos/system.c'',
        ''SOURCES += rtos/hw/hw_abstraction.c rtos/hw/interrupt_handler.c'']"
proof -
  have rules: "makefile_module_sources m = apply_rules
     [(power_management_enabled, ''SOURCES += rtos/hw/power_management.c''),
      (memory_monitor_enabled, ''SOURCES += rtos/hw/memory_monitor.c''),
      (watchdog_enabled, ''SOURCES += rtos/hw/watchdog_manager.c''),
      (gpio_abstraction_enabled, ''SOURCES += rtos/hw/gpio_abstraction.c''),
      (uart_abstraction_enabled, ''SOURCES += rtos/hw/uart_abstraction.c''),
      (spi_abstraction_enabled, ''SOURCES += rtos/hw/spi_abstraction.c''),
      (i2c_abstraction_enabled, ''SOURCES += rtos/hw/i2c_abstraction.c''),
      (dma_abstraction_enabled, ''SOURCES += rtos/hw/dma_abstraction.c'')] m"
    by (simp add: makefile_module_sources_def apply_rules_def)
  have others: "makefile_module_sources
        (m\<lparr>adc_abstraction_enabled := a, dac_abstraction_enabled := b, security_enabled := c,
           network_enabled := d, ota_enabled := e, debug_tools_enabled := f\<rparr>)
       = makefile_module_sources m"
    by (simp add: makefile_module_sources_def)
  have t1: "makefile_module_sources (m\<lparr>power_management_enabled := \<not> power_management_enabled m\<rparr>)
       \<noteq> makefile_module_sources m"
    by (rule differ_by_member [of "''SOURCES += rtos/hw/power_management.c''"])
      (simp add: makefile_module_sources_mem)
  have t2: "makefile_module_sources (m\<lparr>memory_monitor_enabled := \<not> memory_monitor_enabled m\<rparr>)
       \<noteq> makefile_module_sources m"
    by (rule differ_by_member [of "''SOURCES += rtos/hw/memory_monitor.c''"])
      (simp add: makefile_module_sources_mem)
  have t3: "makefile_module_sources (m\<lparr>watchdog_enabled := \<not> watchdog_enabled m\<rparr>)
       \<noteq> makefile_module_sources m"
    by (rule differ_by_member [of "''SOURCES += rtos/hw/watchdog_manager.c''"])
      (simp add: makefile_module_sources_mem)
  have t4: "makefile_module_sources (m\<lparr>gpio_abstraction_enabled := \<not> gpio_abstraction_enabled m\<rparr>)
       \<noteq> makefile_module_sources m"
    by (rule differ_by_member [of "''SOURCES += rtos/hw/gpio_abstraction.c''"])
      (simp add: makefile_module_sources_mem)
  have t5: "makefile_module_sources (m\<lparr>uart_abstraction_enabled := \<not> uart_abstraction_enabled m\<rparr>)
       \<noteq> makefile_module_sources m"
    by (rule differ_by_member [of "''SOURCES += rtos/hw/uart_abstraction.c''"])
      (simp add: makefile_module_sources_mem)
  have t6: "makefile_module_sources (m\<lparr>spi_abstraction_enabled := \<not> spi_abstraction_enabled m\<rparr>)
       \<noteq> makefile_module_sources m"
    by (rule differ_by_member [of "''SOURCES += rtos/hw/spi_abstraction.c''"])
      (simp add: makefile_module_sources_mem)
  have t7: "makefile_module_sources (m\<lparr>i2c_abstraction_enabled := \<not> i2c_abstraction_enabled m\<rparr>)
       \<noteq> makefile_module_sources m"
    by (rule differ_by_member [of "''SOURCES += rtos/hw/i2c_abstraction.c''"])
      (simp add: makefile_module_sources_mem)
  have t8: "makefile_module_sources (m\<lparr>dma_abstraction_enabled := \<not> dma_abstraction_enabled m\<rparr>)
       \<noteq> makefile_module_sources m"
    by (rule differ_by_member [of "''SOURCES += rtos/hw/dma_abstraction.c''"])
      (simp add: makefile_module_sources_mem)
  have place: "makefile_lines config platform =
       (makefile_head config platform @ makefile_toolchain platform @ makefile_flags) @
       makefile_module_sources (module config) @ makefile_tail"
    by (simp add: makefile_lines_def)
  have base: "take 3 (drop 10 makefile_flags) =
       [''SOURCES = main_hw_enhanced.c system_support.c'',
        ''SOURCES += rtos/system.c'',
        ''SOURCES += rtos/hw/hw_abstraction.c rtos/hw/interrupt_handler.c'']"
    by (simp add: makefile_flags_def)
  from rules others t1 t2 t3 t4 t5 t6 t7 t8 place base show ?thesis
    by blast
qed

text \<open>
  C6, as stated, fails: the claim has five flags drive the conditional source list of
  CMakeLists.txt. For the module section of the STM32F4 preset the list has six lines,
  and clearing any one of six different flags changes it.
\<close>

theorem cmake_five_flags_counterexample:
  "length (cmake_module_sources (module STM32F4_config)) = 6
   \<and> cmake_module_sources ((module STM32F4_config)\<lparr>power_management_enabled := False\<rparr>)
       \<noteq> cmake_module_sources (module STM32F4_config)
   \<and> cmake_module_sources ((module STM32F4_config)\<lparr>memory_monitor_enabled := False\<rparr>)
       \<noteq> cmake_module_sources (module STM32F4_config)
   \<and> cmake_module_sources ((module STM32F4_config)\<lparr>watchdog_enabled := False\<rparr>)
       \<noteq> cmake_module_sources (module STM32F4_config)
   \<and> cmake_module_sources ((module STM32F4_config)\<lparr>gpio_abstraction_enabled := False\<rparr>)
       \<noteq> cmake_module_sources (module STM32F4_config)
   \<and> cmake_module_sources ((module STM32F4_config)\<lparr>uart_abstraction_enabled := False\<rparr>)
       \<noteq> cmake_module_sources (module STM32F4_config)
   \<and> cmake_module_sources ((module STM32F4_config)\<lparr>dma_abstraction_enabled := False\<rparr>)
       \<noteq> cmake_module_sources (module STM32F4_config)"
  by (simp add: cmake_module_sources_def STM32F4_config_def)

text \<open>
  C6, amended. The conditional source list of CMakeLists.txt is the result of six
  append-if-true rules, in the order of the table below. It depends on these six flags
  only and on each of them. The six flags are among the eight of the Makefile; the flags
  for SPI and I2C drive the Makefile list and not this one.
\<close>

theorem cmake_six_rules:
  "cmake_module_sources m = apply_rules
     [(power_management_enabled, ''    rtos/hw/power_management.c''),
      (memory_monitor_enabled, ''    rtos/hw/memory_monitor.c''),
      (watchdog_enabled, ''    rtos/hw/watchdog_manager.c''),
      (gpio_abstraction_enabled, ''    rtos/hw/gpio_abstraction.c''),
      (uart_abstraction_enabled, ''    rtos/hw/uart_abstraction.c''),
      (dma_abstraction_enabled, ''    rtos/hw/dma_abstraction.c'')] m
   \<and> cmake_module_sources
        (m\<lparr>spi_abstraction_enabled := s, i2c_abstraction_enabled := i,
           adc_abstraction_enabled := a, dac_abstraction_enabled := b, security_enabled := c,
           network_enabled := d, ota_enabled := e, debug_tools_enabled := f\<rparr>)
       = cmake_module_sources m
   \<and> cmake_module_sources (m\<lparr>power_management_enabled := \<not> power_management_enabled m\<rparr>)
       \<noteq> cmake_module_sources m
   \<and> cmake_module_sources (m\<lparr>memory_monitor_enabled := \<not> memory_monitor_enabled m\<rparr>)
       \<noteq> cmake_module_sources m
   \<and> cmake_module_sources (m\<lparr>watchdog_enabled := \<not> watchdog_enabled m\<rparr>)
       \<noteq> cmake_module_sources m
   \<and> cmake_module_sources (m\<lparr>gpio_abstraction_enabled := \<not> gpio_abstraction_enabled m\<rparr>)
       \<noteq> cmake_module_sources m
   \<and> cmake_module_sources (m\<lparr>uart_abstraction_enabled := \<not> uart_abstraction_enabled m\<rparr>)
       \<noteq> cmake_module_sources m
   \<and> cmake_module_sources (m\<lparr>dma_abstraction_enabled := \<not> dma_abstraction_enabled m\<rparr>)
       \<noteq> cmake_module_sources m
   \<and> makefile_module_sources (m\<lparr>spi_abstraction_enabled := \<not> spi_abstraction_enabled m\<rparr>)
       \<noteq> makefile_module_sources m
   \<and> makefile_module_sources (m\<lparr>i2c_abstraction_enabled := \<not> i2c_abstraction_enabled m\<rparr>)
       \<noteq> makefile_module_sources m
   \<and> cmake_lines config platform =
       (cmake_head config platform @ cmake_toolchain platform @ cmake_flags) @
       cmake_module_sources (module config) @ cmake_tail"
proof -
  have rules: "cmake_module_sources m = apply_rules
     [(power_management_enabled, ''    rtos/hw/power_management.c''),
      (memory_monitor_enabled, ''    rtos/hw/memory_monitor.c''),
      (watchdog_enabled, ''    rtos/hw/watchdog_manager.c''),
      (gpio_abstraction_enabled, ''    rtos/hw/gpio_abstraction.c''),
      (uart_abstraction_enabled, ''    rtos/hw/uart_abstraction.c''),
      (dma_abstraction_enabled, ''    rtos/hw/dma_abstraction.c'')] m"
    by (simp add: cmake_module_sources_def apply_rules_def)
  have others: "cmake_module_sources
        (m\<lparr>spi_abstraction_enabled := s, i2c_abstraction_enabled := i,
           adc_abstraction_enabled := a, dac_abstraction_enabled := b, security_enabled := c,
           network_enabled := d, ota_enabled := e, debug_tools_enabled := f\<rparr>)
       = cmake_module_sources m"
    by (simp add: cmake_module_sources_def)
  have t1: "cmake_module_sources (m\<lparr>power_management_enabled := \<not> power_management_enabled m\<rparr>)
       \<noteq> cmake_module_sources m"
    by (rule differ_by_member [of "''    rtos/hw/power_management.c''"])
      (simp add: cmake_module_sources_mem)
  have t2: "cmake_module_sources (m\<lparr>memory_monitor_enabled := \<not> memory_monitor_enabled m\<rparr>)
       \<noteq> cmake_module_sources m"
    by (rule differ_by_member [of "''    rtos/hw/memory_monitor.c''"])
      (simp add: cmake_module_sources_mem)
  have t3: "cmake_module_sources (m\<lparr>watchdog_enabled := \<not> watchdog_enabled m\<rparr>)
       \<noteq> cmake_module_sources m"
    by (rule differ_by_member [of "''    rtos/hw/watchdog_manager.c''"])
      (simp add: cmake_module_sources_mem)
  have t4: "cmake_module_sources (m\<lparr>gpio_abstraction_enabled := \<not> gpio_abstraction_enabled m\<rparr>)
       \<noteq> cmake_module_sources m"
    by (rule differ_by_member [of "''    rtos/hw/gpio_abstraction.c''"])
      (simp add: cmake_module_sources_mem)
  have t5: "cmake_module_sources (m\<lparr>uart_abstraction_enabled := \<not> uart_abstraction_enabled m\<rparr>)
       \<noteq> cmake_module_sources m"
    by (rule differ_by_member [of "''    rtos/hw/uart_abstraction.c''"])
      (simp add: cmake_module_sources_mem)
  have t6: "cmake_module_sources (m\<lparr>dma_abstraction_enabled := \<not> dma_abstraction_enabled m\<rparr>)
       \<noteq> cmake_module_sources m"
    by (rule differ_by_member [of "''    rtos/hw/dma_abstraction.c''"])
      (simp add: cmake_module_sources_mem)
  have m1: "makefile_module_sources (m\<lparr>spi_abstraction_enabled := \<not> spi_abstraction_enabled m\<rparr>)
       \<noteq> makefile_module_sources m"
    by (rule differ_by_member [of "''SOURCES += rtos/hw/spi_abstraction.c''"])
      (simp add: makefile_module_sources_mem)
  have m2: "makefile_module_sources (m\<lparr>i2c_abstraction_enabled := \<not> i2c_abstraction_enabled m\<rparr>)
       \<noteq> makefile_module_sources m"
    by (rule differ_by_member [of "''SOURCES += rtos/hw/i2c_abstraction.c''"])
      (simp add: makefile_module_sources_mem)
  have place: "cmake_lines config platform =
       (cmake_head config platform @ cmake_toolchain platform @ cmake_flags) @
       cmake_module_sources (module config) @ cmake_tail"
    by (simp add: cmake_lines_def)
  from rules others t1 t2 t3 t4 t5 t6 m1 m2 place show ?thesis
    by blast
qed

section \<open>Toolchain selection and fixed blocks of the Makefile\<close>

lemma makefile_toolchain_cases:
  "makefile_toolchain STM32F1 = makefile_arm_toolchain"
  "makefile_toolchain STM32F4 = makefile_arm_toolchain"
  "makefile_toolchain STM32F7 = makefile_arm_toolchain"
  "makefile_toolchain RISC_V = makefile_riscv_toolchain"
  "makefile_toolchain X86_64 = []"
  by (simp_all add: makefile_toolchain_def)

lemma riscv_compiler_line_mem:
  "''CC = riscv64-unknown-elf-gcc'' \<in> set (makefile_lines config platform) \<longleftrightarrow> platform = RISC_V"
proof -
  have head: "''CC = riscv64-unknown-elf-gcc'' \<notin> set (makefile_head config platform)"
    by (simp add: makefile_head_def)
  have flags: "''CC = riscv64-unknown-elf-gcc'' \<notin> set makefile_flags"
    by (simp add: makefile_flags_def)
  have mods: "''CC = riscv64-unknown-elf-gcc'' \<notin> set (makefile_module_sources (module config))"
    by (simp add: makefile_module_sources_def)
  have tail: "''CC = riscv64-unknown-elf-gcc'' \<notin> set makefile_tail"
    by (simp add: makefile_tail_def)
  have tool: "''CC = riscv64-unknown-elf-gcc'' \<in> set (makefile_toolchain platform)
      \<longleftrightarrow> platform = RISC_V"
    by (cases platform)
      (simp_all add: makefile_toolchain_cases makefile_arm_toolchain_def
        makefile_riscv_toolchain_def)
  from head flags mods tail tool show ?thesis
    by (simp add: makefile_lines_def)
qed

lemma arm_compiler_line_mem:
  "''CC = arm-none-eabi-gcc'' \<in> set (makefile_lines config platform)
     \<longleftrightarrow> platform \<in> {STM32F1, STM32F4, STM32F7}"
proof -
  have head: "''CC = arm-none-eabi-gcc'' \<notin> set (makefile_head config platform)"
    by (simp add: makefile_head_def)
  have flags: "''CC = arm-none-eabi-gcc'' \<notin> set makefile_flags"
    by (simp add: makefile_flags_def)
  have mods: "''CC = arm-none-eabi-gcc'' \<notin> set (makefile_module_sources (module config))"
    by (simp add: makefile_module_sources_def)
  have tail: "''CC = arm-none-eabi-gcc'' \<notin> set makefile_tail"
    by (simp add: makefile_tail_def)
  have tool: "''CC = arm-none-eabi-gcc'' \<in> set (makefile_toolchain platform)
      \<longleftrightarrow> platform \<in> {STM32F1, STM32F4, STM32F7}"
    by (cases platform)
      (simp_all add: makefile_toolchain_cases makefile_arm_toolchain_def
        makefile_riscv_toolchain_def)
  from head flags mods tail tool show ?thesis
    by (simp add: makefile_lines_def)
qed

text \<open>
  For each of the three built-in presets the Makefile is rendered with the ARM compiler
  block (\<^verbatim>\<open>arm-none-eabi-\<close>). Whatever the registry holds, a rendered Makefile
  contains the RISC-V compiler line exactly when the platform is \<^const>\<open>RISC_V\<close>, and the
  ARM one exactly when it is one of the three STM32 members. \<^const>\<open>RISC_V\<close> has no
  preset: on the initial registry its Makefile is refused.
\<close>

lemma makefile_compiler_lines:
  "makefile_text init_default_platforms STM32F1 =
     Inr (makefile_head STM32F1_config STM32F1 @ makefile_arm_toolchain @ makefile_flags @
          makefile_module_sources (module STM32F1_config) @ makefile_tail)
   \<and> makefile_text init_default_platforms STM32F4 =
     Inr (makefile_head STM32F4_config STM32F4 @ makefile_arm_toolchain @ makefile_flags @
          makefile_module_sources (module STM32F4_config) @ makefile_tail)
   \<and> makefile_text init_default_platforms STM32F7 =
     Inr (makefile_head STM32F7_config STM32F7 @ makefile_arm_toolchain @ makefile_flags @
          makefile_module_sources (module STM32F7_config) @ makefile_tail)
   \<and> take 3 makefile_arm_toolchain =
       [''CC = arm-none-eabi-gcc'', ''OBJCOPY = arm-none-eabi-objcopy'',
        ''SIZE = arm-none-eabi-size'']
   \<and> take 3 makefile_riscv_toolchain =
       [''CC = riscv64-unknown-elf-gcc'', ''OBJCOPY = riscv64-unknown-elf-objcopy'',
        ''SIZE = riscv64-unknown-elf-size'']
   \<and> (makefile_text platforms platform = Inr ls \<longrightarrow>
        (''CC = riscv64-unknown-elf-gcc'' \<in> set ls \<longleftrightarrow> platform = RISC_V)
      \<and> (''CC = arm-none-eabi-gcc'' \<in> set ls \<longleftrightarrow> platform \<in> {STM32F1, STM32F4, STM32F7})
      \<and> (platform = RISC_V \<longrightarrow> platforms RISC_V \<noteq> init_default_platforms RISC_V))
   \<and> init_default_platforms RISC_V = None
   \<and> makefile_text init_default_platforms RISC_V = Inl NotFound"
proof -
  have presets: "makefile_text init_default_platforms STM32F1 =
     Inr (makefile_head STM32F1_config STM32F1 @ makefile_arm_toolchain @ makefile_flags @
          makefile_module_sources (module STM32F1_config) @ makefile_tail)
   \<and> makefile_text init_default_platforms STM32F4 =
     Inr (makefile_head STM32F4_config STM32F4 @ makefile_arm_toolchain @ makefile_flags @
          makefile_module_sources (module STM32F4_config) @ makefile_tail)
   \<and> makefile_text init_default_platforms STM32F7 =
     Inr (makefile_head STM32F7_config STM32F7 @ makefile_arm_toolchain @ makefile_flags @
          makefile_module_sources (module STM32F7_config) @ makefile_tail)"
    by (simp add: makefile_text_def init_default_platforms_simps makefile_lines_def
        makefile_toolchain_cases)
  have blocks: "take 3 makefile_arm_toolchain =
       [''CC = arm-none-eabi-gcc'', ''OBJCOPY = arm-none-eabi-objcopy'',
        ''SIZE = arm-none-eabi-size'']
   \<and> take 3 makefile_riscv_toolchain =
       [''CC = riscv64-unknown-elf-gcc'', ''OBJCOPY = riscv64-unknown-elf-objcopy'',
        ''SIZE = riscv64-unknown-elf-size'']"
    by (simp add: makefile_arm_toolchain_def makefile_riscv_toolchain_def)
  have rendered: "(''CC = riscv64-unknown-elf-gcc'' \<in> set ls \<longleftrightarrow> platform = RISC_V)
      \<and> (''CC = arm-none-eabi-gcc'' \<in> set ls \<longleftrightarrow> platform \<in> {STM32F1, STM32F4, STM32F7})
      \<and> (platform = RISC_V \<longrightarrow> platforms RISC_V \<noteq> init_default_platforms RISC_V)"
    if "makefile_text platforms platform = Inr ls"
  proof -
    from that obtain config where
      entry: "platforms platform = Some (Built config)" and
      ls: "ls = makefile_lines config platform"
      by (auto simp: makefile_text_def split: option.splits config_obj.splits)
    show ?thesis
      using entry
      by (auto simp: ls riscv_compiler_line_mem arm_compiler_line_mem
          init_default_platforms_simps)
  qed
  have none: "init_default_platforms RISC_V = None
   \<and> makefile_text init_default_platforms RISC_V = Inl NotFound"
    by (simp add: makefile_text_def init_default_platforms_simps)
  from presets blocks rendered none show ?thesis
    by blast
qed

lemma makefile_head_length: "length (makefile_head config platform) = 8"
  by (simp add: makefile_head_def)

lemma makefile_head_varying_lines:
  "(makefile_head config platform)[0 := x, 4 := y, 5 := z] =
   (makefile_head config' platform')[0 := x, 4 := y, 5 := z]"
  by (simp add: makefile_head_def)

lemma preset_module_sources:
  "makefile_module_sources (module STM32F1_config) = makefile_module_sources (module STM32F4_config)"
  "makefile_module_sources (module STM32F7_config) = makefile_module_sources (module STM32F4_config)"
  by (simp_all add: makefile_module_sources_def STM32F1_config_def STM32F4_config_def
      STM32F7_config_def)

text \<open>
  C10. Every rendered Makefile is its head, the compiler block of the platform, and then
  a remainder made of a fixed block, the module source lines and a fixed closing block.
  The fixed blocks are STM32F4 literals whatever the platform: the defines
  \<^verbatim>\<open>-DSTM32F40_41xxx -DUSE_STDPERIPH_DRIVER -DHSE_VALUE=25000000\<close>, the include paths, the
  firmware-library sources and the link script \<^verbatim>\<open>STM32F407VGTx_FLASH.ld\<close>. In the head
  only the title line (which carries the platform name) and the variables
  \<^verbatim>\<open>PLATFORM\<close> and \<^verbatim>\<open>PLATFORM_NAME\<close> vary. The module source lines follow the module
  flags and are the same for the three presets, whose Makefiles thus agree from the ninth
  line on. The flags block of CMakeLists.txt carries the same defines.
\<close>

theorem makefile_fixed_stm32f4_blocks:
  "take (8 + length (makefile_toolchain platform)) (makefile_lines config platform) =
     makefile_head config platform @ makefile_toolchain platform
   \<and> drop (8 + length (makefile_toolchain platform)) (makefile_lines config platform) =
     makefile_flags @ makefile_module_sources (module config) @ makefile_tail
   \<and> (makefile_head config platform)[0 := x, 4 := y, 5 := z] =
     (makefile_head config' platform')[0 := x, 4 := y, 5 := z]
   \<and> makefile_head config platform ! 4 = ''PLATFORM = '' @ PlatformType_value platform
   \<and> makefile_head config platform ! 5 = ''PLATFORM_NAME = '' @ platform_name config
   \<and> makefile_flags ! 3 =
     ''CFLAGS += -DSTM32F40_41xxx -DUSE_STDPERIPH_DRIVER -DHSE_VALUE=25000000''
   \<and> take 2 (drop 6 makefile_flags) =
     [''INCLUDES = -I. -Irtos -Irtos/core -Irtos/hw -Irtos/hw/security -Irtos/hw/network -Irtos/hw/ota -Irtos/hw/debug'',
      ''INCLUDES += -Ifwlib/inc -Ifwlib/CMSIS/STM32F4xx/Include -Ifwlib/CMSIS/Include'']
   \<and> take 7 (drop 2 makefile_tail) =
     [''FWLIB_SOURCES = fwlib/src/stm32f4xx_rcc.c fwlib/src/stm32f4xx_tim.c'',
      ''FWLIB_SOURCES += fwlib/src/stm32f4xx_gpio.c fwlib/src/stm32f4xx_usart.c'',
      ''FWLIB_SOURCES += fwlib/src/stm32f4xx_pwr.c fwlib/src/stm32f4xx_adc.c'',
      ''FWLIB_SOURCES += fwlib/src/stm32f4xx_iwdg.c fwlib/src/stm32f4xx_wwdg.c'',
      ''FWLIB_SOURCES += fwlib/src/stm32f4xx_dma.c fwlib/src/stm32f4xx_spi.c'',
      ''FWLIB_SOURCES += fwlib/src/stm32f4xx_i2c.c fwlib/src/stm32f4xx_dac.c'',
      ''FWLIB_SOURCES += fwlib/src/misc.c'']
   \<and> makefile_tail ! 14 = ''LDSCRIPT = STM32F407VGTx_FLASH.ld''
   \<and> drop 8 (makefile_lines STM32F1_config STM32F1) = drop 8 (makefile_lines STM32F4_config STM32F4)
   \<and> drop 8 (makefile_lines STM32F7_config STM32F7) = drop 8 (makefile_lines STM32F4_config STM32F4)
   \<and> cmake_flags ! 3 =
     ''set(CMAKE_C_FLAGS '' @ [CHR 0x22] @
     ''${CMAKE_C_FLAGS} -DSTM32F40_41xxx -DUSE_STDPERIPH_DRIVER -DHSE_VALUE=25000000'' @
     [CHR 0x22] @ '')''"
proof -
  have split_lines: "makefile_lines config platform =
      (makefile_head config platform @ makefile_toolchain platform) @
      (makefile_flags @ makefile_module_sources (module config) @ makefile_tail)"
    by (simp add: makefile_lines_def)
  have len: "length (makefile_head config platform @ makefile_toolchain platform) =
      8 + length (makefile_toolchain platform)"
    by (simp add: makefile_head_length)
  have take_prefix: "take (length a) (a @ b) = a" for a b :: "string list"
    by simp
  have front: "take (8 + length (makefile_toolchain platform)) (makefile_lines config platform) =
      makefile_head config platform @ makefile_toolchain platform"
    unfolding split_lines len [symmetric] by (rule take_prefix)
  have rest: "drop (8 + length (makefile_toolchain platform)) (makefile_lines config platform) =
      makefile_flags @ makefile_module_sources (module config) @ makefile_tail"
    unfolding split_lines len [symmetric] by simp
  have head: "makefile_head config platform ! 4 = ''PLATFORM = '' @ PlatformType_value platform
      \<and> makefile_head config platform ! 5 = ''PLATFORM_NAME = '' @ platform_name config"
    by (simp add: makefile_head_def)
  have flags: "makefile_flags ! 3 =
       ''CFLAGS += -DSTM32F40_41xxx -DUSE_STDPERIPH_DRIVER -DHSE_VALUE=25000000''
     \<and> take 2 (drop 6 makefile_flags) =
     [''INCLUDES = -I. -Irtos -Irtos/core -Irtos/hw -Irtos/hw/security -Irtos/hw/network -Irtos/hw/ota -Irtos/hw/debug'',
      ''INCLUDES += -Ifwlib/inc -Ifwlib/CMSIS/STM32F4xx/Include -Ifwlib/CMSIS/Include'']"
    by (simp add: makefile_flags_def)
  have tail: "take 7 (drop 2 makefile_tail) =
     [''FWLIB_SOURCES = fwlib/src/stm32f4xx_rcc.c fwlib/src/stm32f4xx_tim.c'',
      ''FWLIB_SOURCES += fwlib/src/stm32f4xx_gpio.c fwlib/src/stm32f4xx_usart.c'',
      ''FWLIB_SOURCES += fwlib/src/stm32f4xx_pwr.c fwlib/src/stm32f4xx_adc.c'',
      ''FWLIB_SOURCES += fwlib/src/stm32f4xx_iwdg.c fwlib/src/stm32f4xx_wwdg.c'',
      ''FWLIB_SOURCES += fwlib/src/stm32f4xx_dma.c fwlib/src/stm32f4xx_spi.c'',
      ''FWLIB_SOURCES += fwlib/src/stm32f4xx_i2c.c fwlib/src/stm32f4xx_dac.c'',
      ''FWLIB_SOURCES += fwlib/src/misc.c'']
     \<and> makefile_tail ! 14 = ''LDSCRIPT = STM32F407VGTx_FLASH.ld''"
    by (simp add: makefile_tail_def)
  have after_head: "drop 8 (makefile_lines c p) =
      makefile_toolchain p @ makefile_flags @ makefile_module_sources (module c) @ makefile_tail"
    for c p
    by (simp add: makefile_lines_def makefile_head_length)
  have presets: "drop 8 (makefile_lines STM32F1_config STM32F1) =
        drop 8 (makefile_lines STM32F4_config STM32F4)
     \<and> drop 8 (makefile_lines STM32F7_config STM32F7) =
        drop 8 (makefile_lines STM32F4_config STM32F4)"
    by (simp add: after_head makefile_toolchain_cases preset_module_sources)
  have cmake: "cmake_flags ! 3 =
     ''set(CMAKE_C_FLAGS '' @ [CHR 0x22] @
     ''${CMAKE_C_FLAGS} -DSTM32F40_41xxx -DUSE_STDPERIPH_DRIVER -DHSE_VALUE=25000000'' @
     [CHR 0x22] @ '')''"
    by (simp add: cmake_flags_def)
  from front rest makefile_head_varying_lines [of config platform x y z config' platform']
    head flags tail presets cmake
  show ?thesis
    by blast
qed

section \<open>Saving and loading the presets\<close>

lemma newline_indent_1: "newline_indent (Suc 0) = [CHR 0x0A, CHR '' '', CHR '' '']"
  by (simp add: newline_indent_def numeral_2_eq_2)

lemma encode_basestring_platform_type:
  "encode_basestring ''platform_type'' = [CHR 0x22] @ ''platform_type'' @ [CHR 0x22]"
  by (simp add: encode_basestring_def escape_char_def)

text \<open>
  The encoder stops at the first field: the identifier is an enumeration member, which
  \<^verbatim>\<open>json.dump\<close> cannot serialise.
\<close>

lemma json_dump_built:
  "json_dump (asdict (Built config)) =
     (''{'' @ [CHR 0x0A] @ ''  '' @ [CHR 0x22] @ ''platform_type'' @ [CHR 0x22] @ '': '',
      Some TypeError)"
  by (simp add: json_dump_def newline_indent_1 encode_basestring_platform_type)

text \<open>
  C2. The claim has the JSON encoding succeed for every registered platform. On the
  registry after initialisation \<^const>\<open>save_config_json\<close> returns \<^verbatim>\<open>False\<close> for each of
  the three presets: the encoder raises \<^verbatim>\<open>TypeError\<close> on the identifier, and a writable
  output file is left holding the opening of the object up to the first key.
\<close>

theorem save_config_json_presets_fail:
  "save_config_json init_default_platforms STM32F1 output_file fs =
     (False, if writable fs output_file
        then fs\<lparr>files := (files fs)(output_file \<mapsto>
          ''{'' @ [CHR 0x0A] @ ''  '' @ [CHR 0x22] @ ''platform_type'' @ [CHR 0x22] @ '': '')\<rparr>
        else fs)
   \<and> save_config_json init_default_platforms STM32F4 output_file fs =
     (False, if writable fs output_file
        then fs\<lparr>files := (files fs)(output_file \<mapsto>
          ''{'' @ [CHR 0x0A] @ ''  '' @ [CHR 0x22] @ ''platform_type'' @ [CHR 0x22] @ '': '')\<rparr>
        else fs)
   \<and> save_config_json init_default_platforms STM32F7 output_file fs =
     (False, if writable fs output_file
        then fs\<lparr>files := (files fs)(output_file \<mapsto>
          ''{'' @ [CHR 0x0A] @ ''  '' @ [CHR 0x22] @ ''platform_type'' @ [CHR 0x22] @ '': '')\<rparr>
        else fs)"
  by (simp add: save_config_json_def init_default_platforms_simps json_dump_built
      del: asdict.simps)

lemma load_stm32f4_document:
  "load_config_json (Inr stm32f4_document) =
     Some (Loaded \<lparr>kw_platform_type = PyStr ''stm32f4'',
       kw_platform_name = PyStr ''STM32F407VGT6'',
       kw_clock = asdict_clock (clock STM32F4_config),
       kw_memory = asdict_memory (memory STM32F4_config),
       kw_peripheral = asdict_peripheral (peripheral STM32F4_config),
       kw_feature = asdict_feature (feature STM32F4_config),
       kw_module = asdict_module (module STM32F4_config),
       kw_debug = asdict_debug (debug STM32F4_config)\<rparr>)"
  by (simp add: stm32f4_document_def PlatformConfig_kwargs_def field_names_def)

text \<open>
  C1. The claim has the decoding of the encoding of a configuration equal that
  configuration field by field. For the STM32F4 preset the encoder raises \<^verbatim>\<open>TypeError\<close>
  after the first key, so there is no encoding to decode. Decoding the document that lists
  the same preset with its identifier as a string succeeds, but the object it returns
  holds a string where the preset holds the identifier and dictionaries where it holds
  the six sections: of the eight fields only the name compares equal.
\<close>

theorem roundtrip_stm32f4_fails:
  "json_dump (asdict (Built STM32F4_config)) =
     (''{'' @ [CHR 0x0A] @ ''  '' @ [CHR 0x22] @ ''platform_type'' @ [CHR 0x22] @ '': '',
      Some TypeError)
   \<and> load_config_json (Inr stm32f4_document) =
     Some (Loaded \<lparr>kw_platform_type = PyStr ''stm32f4'',
       kw_platform_name = PyStr ''STM32F407VGT6'',
       kw_clock = asdict_clock (clock STM32F4_config),
       kw_memory = asdict_memory (memory STM32F4_config),
       kw_peripheral = asdict_peripheral (peripheral STM32F4_config),
       kw_feature = asdict_feature (feature STM32F4_config),
       kw_module = asdict_module (module STM32F4_config),
       kw_debug = asdict_debug (debug STM32F4_config)\<rparr>)
   \<and> fields_equal STM32F4_config
       \<lparr>kw_platform_type = PyStr ''stm32f4'',
        kw_platform_name = PyStr ''STM32F407VGT6'',
        kw_clock = asdict_clock (clock STM32F4_config),
        kw_memory = asdict_memory (memory STM32F4_config),
        kw_peripheral = asdict_peripheral (peripheral STM32F4_config),
        kw_feature = asdict_feature (feature STM32F4_config),
        kw_module = asdict_module (module STM32F4_config),
        kw_debug = asdict_debug (debug STM32F4_config)\<rparr>
     = [False, True, False, False, False, False, False, False]
   \<and> load_config_json (Inr stm32f4_document) \<noteq> Some (Built STM32F4_config)"
proof -
  have eq: "fields_equal STM32F4_config
       \<lparr>kw_platform_type = PyStr ''stm32f4'',
        kw_platform_name = PyStr ''STM32F407VGT6'',
        kw_clock = asdict_clock (clock STM32F4_config),
        kw_memory = asdict_memory (memory STM32F4_config),
        kw_peripheral = asdict_peripheral (peripheral STM32F4_config),
        kw_feature = asdict_feature (feature STM32F4_config),
        kw_module = asdict_module (module STM32F4_config),
        kw_debug = asdict_debug (debug STM32F4_config)\<rparr>
     = [False, True, False, False, False, False, False, False]"
    by (simp add: fields_equal_def STM32F4_config_def)
  show ?thesis
    using eq by (simp add: json_dump_built load_stm32f4_document del: asdict.simps)
qed

lemma kwargs_missing_field:
  assumes "f \<in> set field_names" and "f \<notin> fst ` set kw"
  shows "PlatformConfig_kwargs kw = Inl TypeError"
proof -
  from assms(2) have none: "map_of kw f = None"
    by (simp add: map_of_eq_None_iff)
  from assms(1) have "f = ''platform_type'' \<or> f = ''platform_name'' \<or> f = ''clock''
      \<or> f = ''memory'' \<or> f = ''peripheral'' \<or> f = ''feature'' \<or> f = ''module''
      \<or> f = ''debug''"
    by (simp add: field_names_def)
  with none show ?thesis
    by (auto simp: PlatformConfig_kwargs_def split: option.splits)
qed

lemma kwargs_unexpected_keyword:
  assumes "k \<in> fst ` set kw" and "k \<notin> set field_names"
  shows "PlatformConfig_kwargs kw = Inl TypeError"
proof -
  from assms have "\<not> list_all (\<lambda>k. k \<in> set field_names) (map fst kw)"
    by (auto simp: list_all_iff)
  then show ?thesis
    by (simp add: PlatformConfig_kwargs_def)
qed

text \<open>
  C3. The claim has decoding fail on any missing or mismatched required field. The
  document below has all eight top-level keys, an empty clock section (every clock field
  is missing) and a number where the memory section should be. The code decodes it into
  an object: \<^verbatim>\<open>PlatformConfig(**config_dict)\<close> stores the parsed values and never builds
  the sections that the field annotations and the presets give the class, so nothing
  looks at what a section holds.
\<close>

theorem load_accepts_hollow_document:
  "load_config_json (Inr hollow_document) =
     Some (Loaded \<lparr>kw_platform_type = PyStr ''stm32f4'', kw_platform_name = PyStr ''custom'',
       kw_clock = PyDict [], kw_memory = PyInt 5, kw_peripheral = PyNone,
       kw_feature = PyList [], kw_module = PyStr ''all'', kw_debug = PyBool True\<rparr>)"
  by (simp add: hollow_document_def PlatformConfig_kwargs_def field_names_def)

text \<open>
  What the decoder does check: it returns no object when reading or parsing the input
  raises, when the parsed value is not a JSON object, when one of the eight top-level
  fields is missing (the memory section, for one), and when the object has a key that is
  not a field. An object is returned only for a document whose top-level keys are exactly
  the eight field names.
\<close>

lemma load_config_json_top_level_keys:
  "load_config_json (Inl e) = None
   \<and> ((\<forall>kw'. v \<noteq> PyDict kw') \<longrightarrow> load_config_json (Inr v) = None)
   \<and> (f \<in> set field_names \<and> f \<notin> fst ` set kw \<longrightarrow> load_config_json (Inr (PyDict kw)) = None)
   \<and> (''memory'' \<notin> fst ` set kw \<longrightarrow> load_config_json (Inr (PyDict kw)) = None)
   \<and> (k \<in> fst ` set kw \<and> k \<notin> set field_names \<longrightarrow> load_config_json (Inr (PyDict kw)) = None)
   \<and> (load_config_json (Inr (PyDict kw)) = Some config \<longrightarrow> fst ` set kw = set field_names)"
proof -
  have not_dict: "load_config_json (Inr v) = None" if "\<forall>kw'. v \<noteq> PyDict kw'"
    using that by (cases v) simp_all
  have missing: "load_config_json (Inr (PyDict kw)) = None"
    if "f \<in> set field_names \<and> f \<notin> fst ` set kw" for f
    using that kwargs_missing_field [of f kw] by simp
  have memory: "load_config_json (Inr (PyDict kw)) = None" if "''memory'' \<notin> fst ` set kw"
    using that missing [of "''memory''"] by (simp add: field_names_def)
  have unexpected: "load_config_json (Inr (PyDict kw)) = None"
    if "k \<in> fst ` set kw \<and> k \<notin> set field_names" for k
    using that kwargs_unexpected_keyword [of k kw] by simp
  have keys: "fst ` set kw = set field_names"
    if some: "load_config_json (Inr (PyDict kw)) = Some config"
  proof
    show "fst ` set kw \<subseteq> set field_names"
    proof
      fix x
      assume "x \<in> fst ` set kw"
      with unexpected [of x] some show "x \<in> set field_names"
        by auto
    qed
    show "set field_names \<subseteq> fst ` set kw"
    proof
      fix x
      assume "x \<in> set field_names"
      with missing [of x] some show "x \<in> fst ` set kw"
        by auto
    qed
  qed
  have raised: "load_config_json (Inl e) = None"
    by simp
  from raised not_dict missing [of f] memory unexpected [of k] keys show ?thesis
    by blast
qed

lemma load_no_memory_document: "load_config_json (Inr no_memory_document) = None"
  by (simp add: no_memory_document_def PlatformConfig_kwargs_def field_names_def)

section \<open>Identifier and key\<close>

lemma registry_ok_iff: "registry_ok platforms \<longleftrightarrow> (\<forall>key. entry_ok platforms key)"
proof
  assume ok: "registry_ok platforms"
  show "\<forall>key. entry_ok platforms key"
  proof
    fix key
    from ok show "entry_ok platforms key"
      by (cases key) (simp_all add: registry_ok_def PlatformType_members_def)
  qed
next
  assume "\<forall>key. entry_ok platforms key"
  then show "registry_ok platforms"
    by (simp add: registry_ok_def PlatformType_members_def)
qed

lemma registry_ok_init: "registry_ok init_default_platforms"
  by (simp add: registry_ok_def PlatformType_members_def entry_ok_def
      init_default_platforms_simps STM32F1_config_def STM32F4_config_def STM32F7_config_def)

text \<open>
  C4, as stated, fails: the claim has the override path keep every stored
  configuration's identifier equal to its key. After initialisation the invariant holds.
  Loading the document of the STM32F4 preset and storing it for \<^verbatim>\<open>--platform stm32f1\<close>
  breaks it at the key \<^const>\<open>STM32F1\<close>.
\<close>

theorem override_breaks_identifier_invariant:
  "registry_ok init_default_platforms
   \<and> \<not> entry_ok
        (override_platform init_default_platforms STM32F1
           (load_config_json (Inr stm32f4_document))) STM32F1
   \<and> \<not> registry_ok
        (override_platform init_default_platforms STM32F1
           (load_config_json (Inr stm32f4_document)))"
proof -
  have f1: "\<not> entry_ok
        (override_platform init_default_platforms STM32F1
           (load_config_json (Inr stm32f4_document))) STM32F1"
    by (simp add: entry_ok_def override_platform_def load_stm32f4_document)
  from f1 registry_ok_init show ?thesis
    by (auto simp: registry_ok_iff)
qed

text \<open>
  C4, amended. After initialisation every stored configuration's identifier equals its
  key, in particular for the three presets. The override path stores the loaded object
  under the platform named on the command line without looking at the object's
  identifier: every other entry stays as it was, nothing changes when no object was
  loaded, and a registry that satisfied the invariant satisfies it afterwards exactly when
  the identifier of the stored object equals that key.
\<close>

theorem registry_identifier_invariant:
  "registry_ok init_default_platforms
   \<and> identifier_is (Built STM32F1_config) STM32F1
   \<and> identifier_is (Built STM32F4_config) STM32F4
   \<and> identifier_is (Built STM32F7_config) STM32F7
   \<and> override_platform platforms platform None = platforms
   \<and> override_platform platforms platform (Some config) platform = Some config
   \<and> (key \<noteq> platform \<longrightarrow>
        override_platform platforms platform custom_config key = platforms key)
   \<and> (registry_ok platforms \<longrightarrow>
        (registry_ok (override_platform platforms platform (Some config))
           \<longleftrightarrow> identifier_is config platform))"
proof -
  have presets: "identifier_is (Built STM32F1_config) STM32F1
   \<and> identifier_is (Built STM32F4_config) STM32F4
   \<and> identifier_is (Built STM32F7_config) STM32F7"
    by (simp add: STM32F1_config_def STM32F4_config_def STM32F7_config_def)
  have other: "override_platform platforms platform custom_config key = platforms key"
    if "key \<noteq> platform"
    using that by (simp add: override_platform_def split: option.splits)
  have kept: "registry_ok (override_platform platforms platform (Some config))
      \<longleftrightarrow> identifier_is config platform"
    if ok: "registry_ok platforms"
  proof
    assume "registry_ok (override_platform platforms platform (Some config))"
    then have "entry_ok (override_platform platforms platform (Some config)) platform"
      by (simp add: registry_ok_iff)
    then show "identifier_is config platform"
      by (simp add: entry_ok_def override_platform_def)
  next
    assume ident: "identifier_is config platform"
    have "entry_ok (override_platform platforms platform (Some config)) k" for k
    proof (cases "k = platform")
      case True
      with ident show ?thesis
        by (simp add: entry_ok_def override_platform_def)
    next
      case False
      from ok have "entry_ok platforms k"
        by (simp add: registry_ok_iff)
      with False show ?thesis
        by (simp add: entry_ok_def override_platform_def)
    qed
    then show "registry_ok (override_platform platforms platform (Some config))"
      by (simp add: registry_ok_iff)
  qed
  from presets other kept show ?thesis
    by (simp add: registry_ok_init override_platform_def)
qed

theorem registry_identifier_invariant_witness:
  "registry_ok init_default_platforms
   \<and> STM32F4 \<noteq> RISC_V
   \<and> override_platform init_default_platforms RISC_V
        (Some (Built (STM32F1_config\<lparr>platform_type := RISC_V\<rparr>))) STM32F4
       = init_default_platforms STM32F4
   \<and> identifier_is (Built (STM32F1_config\<lparr>platform_type := RISC_V\<rparr>)) RISC_V
   \<and> registry_ok (override_platform init_default_platforms RISC_V
        (Some (Built (STM32F1_config\<lparr>platform_type := RISC_V\<rparr>))))"
  using registry_identifier_invariant [of init_default_platforms RISC_V
      "Built (STM32F1_config\<lparr>platform_type := RISC_V\<rparr>)" STM32F4
      "Some (Built (STM32F1_config\<lparr>platform_type := RISC_V\<rparr>))"]
  by simp

section \<open>The RISC-V platform through a loaded configuration\<close>

lemma load_config_json_Loaded:
  assumes "load_config_json input = Some config"
  shows "\<exists>a. config = Loaded a"
proof (cases input)
  case (Inl e)
  with assms show ?thesis
    by simp
next
  case (Inr v)
  with assms show ?thesis
    by (cases v)
      (auto simp: PlatformConfig_kwargs_def split: if_splits option.splits)
qed

lemma load_riscv_document:
  "load_config_json (Inr riscv_document) =
     Some (Loaded \<lparr>kw_platform_type = PyStr ''riscv'',
       kw_platform_name = PyStr ''RV32IMAC'',
       kw_clock = asdict_clock (clock STM32F1_config),
       kw_memory = asdict_memory (memory STM32F1_config),
       kw_peripheral = asdict_peripheral (peripheral STM32F1_config),
       kw_feature = asdict_feature (feature STM32F1_config),
       kw_module = asdict_module (module STM32F1_config),
       kw_debug = asdict_debug (debug STM32F1_config)\<rparr>)"
  by (simp add: riscv_document_def PlatformConfig_kwargs_def field_names_def)

text \<open>
  C8. The claim has the Makefile renderer select the ARM prefix for the three built-in
  presets and the RISC-V prefix for the identifier that is reached only through an
  externally supplied configuration. The three presets are rendered with the ARM block,
  and \<^const>\<open>RISC_V\<close> has no preset: on the initial registry its Makefile is refused. On
  the external route the code fails: a complete document for \<^verbatim>\<open>riscv\<close> is loaded and
  stored under \<^const>\<open>RISC_V\<close>, but its sections are parsed JSON values, so the header
  generator, which \<^verbatim>\<open>main\<close> calls first, and the Makefile generator both raise
  \<^verbatim>\<open>AttributeError\<close>. Whatever the input file holds, the Makefile for \<^const>\<open>RISC_V\<close>
  is refused or raises; none is rendered with the RISC-V prefix.
\<close>

theorem riscv_external_configuration_raises:
  "makefile_text init_default_platforms STM32F1 =
     Inr (makefile_head STM32F1_config STM32F1 @ makefile_arm_toolchain @ makefile_flags @
          makefile_module_sources (module STM32F1_config) @ makefile_tail)
   \<and> makefile_text init_default_platforms STM32F4 =
     Inr (makefile_head STM32F4_config STM32F4 @ makefile_arm_toolchain @ makefile_flags @
          makefile_module_sources (module STM32F4_config) @ makefile_tail)
   \<and> makefile_text init_default_platforms STM32F7 =
     Inr (makefile_head STM32F7_config STM32F7 @ makefile_arm_toolchain @ makefile_flags @
          makefile_module_sources (module STM32F7_config) @ makefile_tail)
   \<and> take 3 makefile_arm_toolchain =
       [''CC = arm-none-eabi-gcc'', ''OBJCOPY = arm-none-eabi-objcopy'',
        ''SIZE = arm-none-eabi-size'']
   \<and> makefile_toolchain RISC_V = makefile_riscv_toolchain
   \<and> take 3 makefile_riscv_toolchain =
       [''CC = riscv64-unknown-elf-gcc'', ''OBJCOPY = riscv64-unknown-elf-objcopy'',
        ''SIZE = riscv64-unknown-elf-size'']
   \<and> makefile_text init_default_platforms RISC_V = Inl NotFound
   \<and> load_config_json (Inr riscv_document) \<noteq> None
   \<and> makefile_text
        (override_platform init_default_platforms RISC_V (load_config_json (Inr riscv_document)))
        RISC_V = Inl AttributeError
   \<and> generate_config_header
        (override_platform init_default_platforms RISC_V (load_config_json (Inr riscv_document)))
        RISC_V header_file fs = Inl AttributeError
   \<and> generate_makefile
        (override_platform init_default_platforms RISC_V (load_config_json (Inr riscv_document)))
        RISC_V output_file fs = Inl AttributeError
   \<and> (makefile_text
        (override_platform init_default_platforms RISC_V (load_config_json input)) RISC_V
          = Inl NotFound
      \<or> makefile_text
        (override_platform init_default_platforms RISC_V (load_config_json input)) RISC_V
          = Inl AttributeError)"
proof -
  have presets: "makefile_text init_default_platforms STM32F1 =
     Inr (makefile_head STM32F1_config STM32F1 @ makefile_arm_toolchain @ makefile_flags @
          makefile_module_sources (module STM32F1_config) @ makefile_tail)
   \<and> makefile_text init_default_platforms STM32F4 =
     Inr (makefile_head STM32F4_config STM32F4 @ makefile_arm_toolchain @ makefile_flags @
          makefile_module_sources (module STM32F4_config) @ makefile_tail)
   \<and> makefile_text init_default_platforms STM32F7 =
     Inr (makefile_head STM32F7_config STM32F7 @ makefile_arm_toolchain @ makefile_flags @
          makefile_module_sources (module STM32F7_config) @ makefile_tail)"
    by (simp add: makefile_text_def init_default_platforms_simps makefile_lines_def
        makefile_toolchain_cases)
  have blocks: "take 3 makefile_arm_toolchain =
       [''CC = arm-none-eabi-gcc'', ''OBJCOPY = arm-none-eabi-objcopy'',
        ''SIZE = arm-none-eabi-size'']
   \<and> makefile_toolchain RISC_V = makefile_riscv_toolchain
   \<and> take 3 makefile_riscv_toolchain =
       [''CC = riscv64-unknown-elf-gcc'', ''OBJCOPY = riscv64-unknown-elf-objcopy'',
        ''SIZE = riscv64-unknown-elf-size'']"
    by (simp add: makefile_arm_toolchain_def makefile_riscv_toolchain_def
        makefile_toolchain_cases)
  have refused: "makefile_text init_default_platforms RISC_V = Inl NotFound"
    by (simp add: makefile_text_def init_default_platforms_simps)
  have loaded: "load_config_json (Inr riscv_document) \<noteq> None"
    by (simp add: load_riscv_document)
  have text_raises: "makefile_text
        (override_platform init_default_platforms RISC_V (load_config_json (Inr riscv_document)))
        RISC_V = Inl AttributeError"
    by (simp add: load_riscv_document override_platform_def makefile_text_def)
  have header_raises: "generate_config_header
        (override_platform init_default_platforms RISC_V (load_config_json (Inr riscv_document)))
        RISC_V header_file fs = Inl AttributeError"
    by (simp add: load_riscv_document override_platform_def generate_config_header_def
        config_header_text_def)
  have makefile_raises: "generate_makefile
        (override_platform init_default_platforms RISC_V (load_config_json (Inr riscv_document)))
        RISC_V output_file fs = Inl AttributeError"
    by (simp add: generate_makefile_def text_raises)
  have any_input: "makefile_text
        (override_platform init_default_platforms RISC_V (load_config_json input)) RISC_V
          = Inl NotFound
      \<or> makefile_text
        (override_platform init_default_platforms RISC_V (load_config_json input)) RISC_V
          = Inl AttributeError"
  proof (cases "load_config_json input")
    case None
    then show ?thesis
      by (simp add: override_platform_def refused)
  next
    case (Some config)
    then obtain a where "config = Loaded a"
      using load_config_json_Loaded by blast
    with Some show ?thesis
      by (simp add: override_platform_def makefile_text_def)
  qed
  from presets blocks refused loaded text_raises header_raises makefile_raises any_input
  show ?thesis
    by blast
qed

end
